theory Spec2Isabelle
  imports Main
begin

section \<open>JavaScript values\<close>

text \<open>
  The program of \<^verbatim>\<open>src/script.js\<close> handles values decoded from JSON (the player
  records and the lists of them) and the absent value \<^verbatim>\<open>undefined\<close>.

  The program does no arithmetic.  What it does with a number is to print it (in a
  template literal and in \<^verbatim>\<open>JSON.stringify\<close>), to test whether it is zero or \<^verbatim>\<open>NaN\<close>
  (truthiness) and to compare it with \<^verbatim>\<open>0\<close>.  A number is therefore given by the string
  JavaScript prints for it: \<open>JNum ''27''\<close>, \<open>JNum ''1.5''\<close>, \<open>JNum ''1e+21''\<close>,
  \<open>JNum ''1152921504606847000''\<close> (the number \<open>2^60\<close>), \<open>JNum ''0''\<close> (both zeros),
  \<open>JNum ''Infinity''\<close>.  No two numbers have the same print but the two zeros, which the
  program cannot tell apart.

  Strings are lists of 8-bit code units.  An object is the list of its own properties in
  the order JavaScript enumerates them; no two have the same key (see \<open>well_formed\<close>
  below).  Values that are no JSON data (functions, symbols, objects with cycles or with
  methods of their own) are outside the model: in particular no property of an object
  is callable.
\<close>

datatype jsval =
    JUndefined
  | JNull
  | JBool bool
  | JNum string
  | JStr string
  | JArr "jsval list"
  | JObj "(string \<times> jsval) list"

text \<open>
  What a JavaScript expression can throw here.  \<open>OutsideModel\<close> is not a JavaScript
  exception: it is the outcome of assigning to \<^verbatim>\<open>innerHTML\<close> a string for which the
  parser at hand (a parameter, see below) gives no tree.  No \<^verbatim>\<open>catch\<close> block receives
  it.
\<close>

datatype js_error = TypeError | NetworkFailure | DecodeFailure | OutsideModel

subsection \<open>Conversion to string, as a template literal does it\<close>

text \<open>
  \<^verbatim>\<open>`${v}`\<close> applies \<^verbatim>\<open>ToString\<close> to \<^verbatim>\<open>v\<close>.  For an object this calls its \<^verbatim>\<open>toString\<close>
  method, which is \<^verbatim>\<open>Object.prototype.toString\<close> and gives \<^verbatim>\<open>[object Object]\<close> unless the
  object has a property \<^verbatim>\<open>toString\<close> of its own; that one is not callable, so \<^verbatim>\<open>valueOf\<close>
  is tried, which gives no primitive value either (it is not callable if it is the
  object's own, and \<^verbatim>\<open>Object.prototype.valueOf\<close> returns the object), and the conversion
  throws a TypeError.  An array is joined with commas: \<^verbatim>\<open>undefined\<close> and \<^verbatim>\<open>null\<close>
  elements print as the empty string, every other element is converted in its turn, and
  the first conversion that throws ends the whole.
\<close>

fun to_string :: "jsval \<Rightarrow> js_error + string"
  and join_elems :: "jsval list \<Rightarrow> js_error + string"
  and elem_string :: "jsval \<Rightarrow> js_error + string" where
  "to_string JUndefined = Inr ''undefined''"
| "to_string JNull = Inr ''null''"
| "to_string (JBool b) = Inr (if b then ''true'' else ''false'')"
| "to_string (JNum s) = Inr s"
| "to_string (JStr s) = Inr s"
| "to_string (JArr xs) = join_elems xs"
| "to_string (JObj kvs) =
     (if ''toString'' \<in> fst ` set kvs then Inl TypeError else Inr ''[object Object]'')"
| "join_elems [] = Inr []"
| "join_elems [x] = elem_string x"
| "join_elems (x # y # ys) =
     (case elem_string x of
        Inl e \<Rightarrow> Inl e
      | Inr s \<Rightarrow> (case join_elems (y # ys) of Inl e \<Rightarrow> Inl e | Inr r \<Rightarrow> Inr (s @ '','' @ r)))"
| "elem_string JUndefined = Inr []"
| "elem_string JNull = Inr []"
| "elem_string (JBool b) = to_string (JBool b)"
| "elem_string (JNum s) = to_string (JNum s)"
| "elem_string (JStr s) = to_string (JStr s)"
| "elem_string (JArr xs) = to_string (JArr xs)"
| "elem_string (JObj kvs) = to_string (JObj kvs)"

subsection \<open>Property access, truthiness\<close>

text \<open>The decimal digits of a length.\<close>

definition digit_char :: "nat \<Rightarrow> char" where
  "digit_char n = ''0123456789'' ! n"

fun digits :: "nat \<Rightarrow> string" where
  "digits n = (if n < 10 then [digit_char n] else digits (n div 10) @ [digit_char (n mod 10)])"

declare digits.simps [simp del]

text \<open>
  \<^verbatim>\<open>v.k\<close> for the property names the program reads (\<^verbatim>\<open>data\<close>, \<^verbatim>\<open>players\<close>,
  \<^verbatim>\<open>name\<close>, \<^verbatim>\<open>id\<close>, \<^verbatim>\<open>breed\<close>, \<^verbatim>\<open>imageUrl\<close>, \<^verbatim>\<open>length\<close>): reading a property of
  \<^verbatim>\<open>undefined\<close> or \<^verbatim>\<open>null\<close> throws a TypeError, an object gives its own property or
  \<^verbatim>\<open>undefined\<close>, an array and a string have a \<^verbatim>\<open>length\<close>, every other read gives
  \<^verbatim>\<open>undefined\<close>.
\<close>

fun get_prop :: "jsval \<Rightarrow> string \<Rightarrow> js_error + jsval" where
  "get_prop JUndefined k = Inl TypeError"
| "get_prop JNull k = Inl TypeError"
| "get_prop (JObj kvs) k = (case map_of kvs k of None \<Rightarrow> Inr JUndefined | Some v \<Rightarrow> Inr v)"
| "get_prop (JArr xs) k = (if k = ''length'' then Inr (JNum (digits (length xs))) else Inr JUndefined)"
| "get_prop (JStr s) k = (if k = ''length'' then Inr (JNum (digits (length s))) else Inr JUndefined)"
| "get_prop (JBool b) k = Inr JUndefined"
| "get_prop (JNum s) k = Inr JUndefined"

fun truthy :: "jsval \<Rightarrow> bool" where
  "truthy JUndefined = False"
| "truthy JNull = False"
| "truthy (JBool b) = b"
| "truthy (JNum s) = (s \<noteq> ''0'' \<and> s \<noteq> ''NaN'')"
| "truthy (JStr s) = (s \<noteq> [])"
| "truthy (JArr xs) = True"
| "truthy (JObj kvs) = True"

text \<open>\<^verbatim>\<open>!v\<close>\<close>

definition falsy :: "jsval \<Rightarrow> bool" where
  "falsy v = (\<not> truthy v)"

subsection \<open>\<^verbatim>\<open>JSON.stringify\<close>\<close>

definition hex_digit :: "nat \<Rightarrow> char" where
  "hex_digit n = ''0123456789abcdef'' ! n"

definition json_escape :: "char \<Rightarrow> string" where
  "json_escape c =
     (if c = CHR 0x22 then [CHR 0x5C, CHR 0x22]
      else if c = CHR 0x5C then [CHR 0x5C, CHR 0x5C]
      else if c = CHR 0x08 then [CHR 0x5C, CHR ''b'']
      else if c = CHR 0x09 then [CHR 0x5C, CHR ''t'']
      else if c = CHR 0x0A then [CHR 0x5C, CHR ''n'']
      else if c = CHR 0x0C then [CHR 0x5C, CHR ''f'']
      else if c = CHR 0x0D then [CHR 0x5C, CHR ''r'']
      else if (of_char c :: nat) < 32
        then [CHR 0x5C, CHR ''u'', CHR ''0'', CHR ''0'',
              hex_digit (of_char c div 16), hex_digit (of_char c mod 16)]
      else [c])"

definition json_quote :: "string \<Rightarrow> string" where
  "json_quote s = CHR 0x22 # concat (map json_escape s) @ [CHR 0x22]"

text \<open>A finite number is written as it prints, the other three as \<^verbatim>\<open>null\<close>.\<close>

definition json_number :: "string \<Rightarrow> string" where
  "json_number s = (if s \<in> {''NaN'', ''Infinity'', ''-Infinity''} then ''null'' else s)"

text \<open>
  \<^verbatim>\<open>undefined\<close> has no serialisation: at the top level the result is \<^verbatim>\<open>undefined\<close>
  (\<open>None\<close>), in an array it is written \<^verbatim>\<open>null\<close>, and an object property holding it is
  left out.  The properties of an object are written in the order of their enumeration.
\<close>

fun stringify :: "jsval \<Rightarrow> string option"
  and stringify_elems :: "jsval list \<Rightarrow> string list"
  and stringify_props :: "(string \<times> jsval) list \<Rightarrow> string list" where
  "stringify JUndefined = None"
| "stringify JNull = Some ''null''"
| "stringify (JBool b) = Some (if b then ''true'' else ''false'')"
| "stringify (JNum s) = Some (json_number s)"
| "stringify (JStr s) = Some (json_quote s)"
| "stringify (JArr xs) = Some (''['' @ concat (stringify_elems xs) @ '']'')"
| "stringify (JObj kvs) = Some (''{'' @ concat (stringify_props kvs) @ ''}'')"
| "stringify_elems [] = []"
| "stringify_elems (x # xs) =
     (case stringify x of None \<Rightarrow> ''null'' | Some s \<Rightarrow> s)
       # (if xs = [] then [] else '','' # stringify_elems xs)"
| "stringify_props [] = []"
| "stringify_props ((k, v) # kvs) =
     (case stringify v of
        None \<Rightarrow> stringify_props kvs
      | Some s \<Rightarrow>
          (json_quote k @ '':'' @ s)
            # (case stringify_props kvs of [] \<Rightarrow> [] | r # rs \<Rightarrow> '','' # r # rs))"

subsection \<open>The order of the properties of an object\<close>

text \<open>
  JavaScript enumerates the own properties of an object with the array indices first
  (the canonical decimal numerals below \<open>2^32 - 1\<close>), in ascending order, and then the
  other keys in the order of their creation.  A value is well formed when the property
  lists of its objects are in such an order, without a repeated key.
\<close>

definition is_digit :: "char \<Rightarrow> bool" where
  "is_digit c = (c \<in> set ''0123456789'')"

definition index_value :: "string \<Rightarrow> nat" where
  "index_value k = foldl (\<lambda>a c. 10 * a + (of_char c - 48)) 0 k"

definition is_index :: "string \<Rightarrow> bool" where
  "is_index k =
     (k \<noteq> [] \<and> list_all is_digit k \<and> (k = ''0'' \<or> hd k \<noteq> CHR ''0'') \<and>
      index_value k < 2 ^ 32 - 1)"

definition key_order :: "string list \<Rightarrow> bool" where
  "key_order ks =
     (distinct ks \<and>
      ks = filter is_index ks @ filter (\<lambda>k. \<not> is_index k) ks \<and>
      sorted_wrt (<) (map index_value (filter is_index ks)))"

fun well_formed :: "jsval \<Rightarrow> bool"
  and well_formed_list :: "jsval list \<Rightarrow> bool"
  and well_formed_props :: "(string \<times> jsval) list \<Rightarrow> bool" where
  "well_formed (JArr xs) = well_formed_list xs"
| "well_formed (JObj kvs) = (key_order (map fst kvs) \<and> well_formed_props kvs)"
| "well_formed JUndefined = True"
| "well_formed JNull = True"
| "well_formed (JBool b) = True"
| "well_formed (JNum s) = True"
| "well_formed (JStr s) = True"
| "well_formed_list [] = True"
| "well_formed_list (x # xs) = (well_formed x \<and> well_formed_list xs)"
| "well_formed_props [] = True"
| "well_formed_props ((k, v) # kvs) = (well_formed v \<and> well_formed_props kvs)"

section \<open>The page, the network and the console\<close>

record request =
  req_method :: string
  req_url :: string
  req_headers :: "(string \<times> string) list"
  req_body :: "string option"

text \<open>
  A call of \<^verbatim>\<open>fetch\<close> either rejects or settles with a response of some status whose
  body \<^verbatim>\<open>response.json()\<close> decodes or fails to decode.
\<close>

datatype response_body = BadJSON | Json jsval

datatype fetch_result = Rejected | Responded nat response_body

text \<open>What the page does to the outside, in the order it does it.\<close>

datatype effect = PreventDefault | Fetch request | ConsoleError string js_error

text \<open>
  The event listeners the program registers are closures; each is named by the place it
  is written at, with the variable it captures.
\<close>

datatype handler = RemoveClick jsval | DetailClick jsval | BackClick | SubmitForm

datatype node =
    Text string
  | Element string "(string \<times> string) list" "(string \<times> handler) list" "node list"

text \<open>
  The state: the children of \<^verbatim>\<open><main>\<close> (\<^verbatim>\<open>mainContainer\<close>), the children of the
  \<^verbatim>\<open><form>\<close> (\<^verbatim>\<open>formContainer\<close>) with the listeners on the form and the current values
  of its three inputs, and the trace of effects.  The page is taken to have both
  containers.
\<close>

record world =
  main_children :: "node list"
  form_children :: "node list"
  form_listeners :: "(string \<times> handler) list"
  name_value :: string
  breed_value :: string
  imageUrl_value :: string
  effects :: "effect list"

text \<open>
  The remote API: the settlement of a request as a function of all the requests made so
  far, the last one being the request itself.
\<close>

type_synonym network = "request list \<Rightarrow> fetch_result"

fun requests_of :: "effect list \<Rightarrow> request list" where
  "requests_of [] = []"
| "requests_of (Fetch r # es) = r # requests_of es"
| "requests_of (e # es) = requests_of es"

subsection \<open>Computations that change the state and may throw\<close>

type_synonym 'a js = "world \<Rightarrow> (js_error + 'a) \<times> world"

definition js_return :: "'a \<Rightarrow> 'a js" where
  "js_return v w = (Inr v, w)"

definition js_throw :: "js_error \<Rightarrow> 'a js" where
  "js_throw e w = (Inl e, w)"

definition js_bind :: "'a js \<Rightarrow> ('a \<Rightarrow> 'b js) \<Rightarrow> 'b js" where
  "js_bind m f w = (case m w of (Inl e, w') \<Rightarrow> (Inl e, w') | (Inr v, w') \<Rightarrow> f v w')"

definition js_lift :: "js_error + 'a \<Rightarrow> 'a js" where
  "js_lift r w = (r, w)"

definition try_catch :: "'a js \<Rightarrow> (js_error \<Rightarrow> 'a js) \<Rightarrow> 'a js" where
  "try_catch m h w =
     (case m w of
        (Inl e, w') \<Rightarrow> if e = OutsideModel then (Inl e, w') else h e w'
      | (Inr v, w') \<Rightarrow> (Inr v, w'))"

definition console_error :: "string \<Rightarrow> js_error \<Rightarrow> unit js" where
  "console_error msg err w = (Inr (), w\<lparr>effects := effects w @ [ConsoleError msg err]\<rparr>)"

definition preventDefault :: "unit js" where
  "preventDefault w = (Inr (), w\<lparr>effects := effects w @ [PreventDefault]\<rparr>)"

text \<open>
  \<^verbatim>\<open>fetch(url, options)\<close> issues the request at once and returns a promise, here the
  settlement the promise will have; \<^verbatim>\<open>await\<close> on it gives the response or throws.
  Every request settles: one that stays pending for ever is not modelled.
\<close>

definition fetch :: "network \<Rightarrow> request \<Rightarrow> fetch_result js" where
  "fetch net r w =
     (Inr (net (requests_of (effects w) @ [r])), w\<lparr>effects := effects w @ [Fetch r]\<rparr>)"

definition await_response :: "fetch_result \<Rightarrow> (nat \<times> response_body) js" where
  "await_response p =
     (case p of Rejected \<Rightarrow> js_throw NetworkFailure | Responded st b \<Rightarrow> js_return (st, b))"

definition await_json :: "nat \<times> response_body \<Rightarrow> jsval js" where
  "await_json response =
     (case snd response of BadJSON \<Rightarrow> js_throw DecodeFailure | Json v \<Rightarrow> js_return v)"



section \<open>The API client\<close>

definition cohortName :: string where
  "cohortName = ''2406-FTB-MT-WEB-PT''"

definition API_URL :: string where
  "API_URL = ''https://fsa-puppy-bowl.herokuapp.com/api/'' @ cohortName"

definition get_request :: "string \<Rightarrow> request" where
  "get_request u = \<lparr>req_method = ''GET'', req_url = u, req_headers = [], req_body = None\<rparr>"

definition fetchAllPlayers :: "network \<Rightarrow> jsval js" where
  "fetchAllPlayers net =
     try_catch
       (js_bind (fetch net (get_request (API_URL @ ''/players''))) (\<lambda>p.
        js_bind (await_response p) (\<lambda>response.
        js_bind (await_json response) (\<lambda>result.
        js_bind (js_lift (get_prop result ''data'')) (\<lambda>d.
        js_lift (get_prop d ''players''))))))
       (\<lambda>err. js_bind (console_error ''Uh oh, trouble fetching players!'' err) (\<lambda>_.
          js_return JUndefined))"

text \<open>
  The template literal of the URL is evaluated inside the \<^verbatim>\<open>try\<close> block, before
  \<^verbatim>\<open>fetch\<close> is called, and the one of the message inside the \<^verbatim>\<open>catch\<close> block: where the
  conversion of \<^verbatim>\<open>playerId\<close> throws, the first throw is caught and the second one leaves
  the function.
\<close>

definition fetchSinglePlayer :: "network \<Rightarrow> jsval \<Rightarrow> jsval js" where
  "fetchSinglePlayer net playerId =
     try_catch
       (js_bind (js_lift (to_string playerId)) (\<lambda>s.
        js_bind (fetch net (get_request (API_URL @ ''/players/'' @ s))) (\<lambda>p.
        js_bind (await_response p) (\<lambda>response.
        js_bind (await_json response) (\<lambda>result.
        js_lift (get_prop result ''data''))))))
       (\<lambda>err.
        js_bind (js_lift (to_string playerId)) (\<lambda>s.
        js_bind (console_error (''Oh no, trouble fetching player #'' @ s @ ''!'') err) (\<lambda>_.
        js_return JUndefined)))"

definition post_request :: "jsval \<Rightarrow> request" where
  "post_request playerObj =
     \<lparr>req_method = ''POST'', req_url = API_URL @ ''/players'',
      req_headers = [(''Content-Type'', ''application/json'')],
      req_body = stringify playerObj\<rparr>"

definition addNewPlayer :: "network \<Rightarrow> jsval \<Rightarrow> jsval js" where
  "addNewPlayer net playerObj =
     try_catch
       (js_bind (fetch net (post_request playerObj)) (\<lambda>p.
        js_bind (await_response p) (\<lambda>response.
        js_bind (await_json response) (\<lambda>result.
        js_return result))))
       (\<lambda>err. js_bind
          (console_error ''Oops, something went wrong with adding that player!'' err)
          (\<lambda>_. js_return JUndefined))"

text \<open>The request of \<^verbatim>\<open>removePlayer\<close> for an identifier that prints as \<open>s\<close>.\<close>

definition delete_request :: "string \<Rightarrow> request" where
  "delete_request s =
     \<lparr>req_method = ''DELETE'', req_url = API_URL @ ''/players/'' @ s,
      req_headers = [], req_body = None\<rparr>"

definition removePlayer :: "network \<Rightarrow> jsval \<Rightarrow> jsval js" where
  "removePlayer net playerId =
     try_catch
       (js_bind (js_lift (to_string playerId)) (\<lambda>s.
        js_bind (fetch net (delete_request s)) (\<lambda>p.
        js_bind (await_response p) (\<lambda>response.
        js_return JUndefined))))
       (\<lambda>err.
        js_bind (js_lift (to_string playerId)) (\<lambda>s.
        js_bind (console_error
                   (''Whoops, trouble removing player #'' @ s @ '' from the roster!'') err) (\<lambda>_.
        js_return JUndefined)))"

section \<open>Setting \<^verbatim>\<open>innerHTML\<close>: the HTML fragment parser\<close>

text \<open>
  Assigning a string to \<^verbatim>\<open>innerHTML\<close> parses it as an HTML fragment in the context of
  the element and replaces the children of the element.  The parser belongs to the
  browser, not to the program: it is a parameter of the model, a function from the name
  of the context element and the string to the nodes, and the parser of a browser gives
  nodes for every string.
\<close>

datatype token = Character char | StartTag string "(string \<times> string) list" | EndTag string

type_synonym html_parser = "string \<Rightarrow> string \<Rightarrow> node list option"

text \<open>
  Where a statement needs to know the nodes, it takes them from the following
  description of the algorithm of the HTML Standard (sections 13.2.5 and 13.2.6).  It
  covers the part of the algorithm that the markup of this program and its field values
  can reach: the tokenizer's data, tag and attribute states, an ampersand that begins no
  character reference, and the tree construction rules of the insertion mode "in body"
  for the elements \<^verbatim>\<open>div\<close>, \<^verbatim>\<open>p\<close>, \<^verbatim>\<open>h1\<close> to \<^verbatim>\<open>h6\<close>, \<^verbatim>\<open>button\<close>, \<^verbatim>\<open>img\<close> and
  \<^verbatim>\<open>input\<close>.  For everything else (an ampersand followed by a letter, a digit or
  \<^verbatim>\<open>#\<close>, comments, other elements, NUL and carriage return) the description says
  nothing: it gives \<open>None\<close>.
\<close>

text \<open>The tag token being built: whether it is an end tag, its name, its attributes.\<close>

type_synonym tag = "bool \<times> string \<times> (string \<times> string) list"

text \<open>
  The states \<open>AmpData\<close>, \<open>AmpDQ\<close>, \<open>AmpSQ\<close> and \<open>AmpUnq\<close> are the character reference
  state entered from the data state and from the three attribute value states, with the
  ampersand pending.
\<close>

datatype tstate =
    Data
  | AmpData
  | TagOpen
  | EndTagOpen
  | TagName bool string
  | BeforeAttrName tag
  | AttrName tag string
  | AfterAttrName tag string
  | BeforeAttrValue tag string
  | AttrValueDQ tag string string
  | AmpDQ tag string string
  | AttrValueSQ tag string string
  | AmpSQ tag string string
  | AttrValueUnq tag string string
  | AmpUnq tag string string
  | AfterAttrValueQ tag
  | SelfClosing tag

definition is_ws :: "char \<Rightarrow> bool" where
  "is_ws c = (c = CHR 0x09 \<or> c = CHR 0x0A \<or> c = CHR 0x0C \<or> c = CHR 0x20)"

definition uncovered :: "char \<Rightarrow> bool" where
  "uncovered c = (c = CHR 0x00 \<or> c = CHR 0x0D)"

definition lower :: "char \<Rightarrow> char" where
  "lower c =
     (case map_of (zip ''ABCDEFGHIJKLMNOPQRSTUVWXYZ'' ''abcdefghijklmnopqrstuvwxyz'') c of
        None \<Rightarrow> c | Some d \<Rightarrow> d)"

definition is_alpha :: "char \<Rightarrow> bool" where
  "is_alpha c = (lower c \<in> set ''abcdefghijklmnopqrstuvwxyz'')"

text \<open>
  After an ampersand these characters begin a named or a numeric character reference;
  any other character leaves the ampersand as it is.
\<close>

definition ref_start :: "char \<Rightarrow> bool" where
  "ref_start c = (is_alpha c \<or> is_digit c \<or> c = CHR ''#'')"

text \<open>After \<^verbatim>\<open><\<close> these characters begin a tag, a comment or a declaration.\<close>

definition tag_start :: "char \<Rightarrow> bool" where
  "tag_start c = (is_alpha c \<or> c = CHR ''/'' \<or> c = CHR ''!'' \<or> c = CHR ''?'')"

text \<open>
  An attribute whose name the tag already has is dropped when its name is complete.
\<close>

definition add_attr :: "tag \<Rightarrow> string \<Rightarrow> string \<Rightarrow> tag" where
  "add_attr t n v =
     (case t of (e, name, attrs) \<Rightarrow>
        if n \<in> fst ` set attrs then (e, name, attrs) else (e, name, attrs @ [(n, v)]))"

definition emit_tag :: "tag \<Rightarrow> token" where
  "emit_tag t = (case t of (e, name, attrs) \<Rightarrow> if e then EndTag name else StartTag name attrs)"

text \<open>
  One character in one state: the tokens emitted and the next state.  Where the
  standard reconsumes the character in another state, the other state's reaction is
  taken at once.
\<close>

definition data_step :: "char \<Rightarrow> (token list \<times> tstate) option" where
  "data_step c =
     (if c = CHR ''<'' then Some ([], TagOpen)
      else if c = CHR ''&'' then Some ([], AmpData)
      else if uncovered c then None
      else Some ([Character c], Data))"

definition before_attr_name_step :: "tag \<Rightarrow> char \<Rightarrow> (token list \<times> tstate) option" where
  "before_attr_name_step t c =
     (if is_ws c then Some ([], BeforeAttrName t)
      else if c = CHR ''/'' then Some ([], SelfClosing t)
      else if c = CHR ''>'' then Some ([emit_tag t], Data)
      else if c = CHR ''='' then Some ([], AttrName t ''='')
      else if uncovered c then None
      else Some ([], AttrName t [lower c]))"

definition dq_step :: "tag \<Rightarrow> string \<Rightarrow> string \<Rightarrow> char \<Rightarrow> (token list \<times> tstate) option" where
  "dq_step t n v c =
     (if c = CHR 0x22 then Some ([], AfterAttrValueQ (add_attr t n v))
      else if c = CHR ''&'' then Some ([], AmpDQ t n v)
      else if uncovered c then None
      else Some ([], AttrValueDQ t n (v @ [c])))"

definition sq_step :: "tag \<Rightarrow> string \<Rightarrow> string \<Rightarrow> char \<Rightarrow> (token list \<times> tstate) option" where
  "sq_step t n v c =
     (if c = CHR 0x27 then Some ([], AfterAttrValueQ (add_attr t n v))
      else if c = CHR ''&'' then Some ([], AmpSQ t n v)
      else if uncovered c then None
      else Some ([], AttrValueSQ t n (v @ [c])))"

definition unq_step :: "tag \<Rightarrow> string \<Rightarrow> string \<Rightarrow> char \<Rightarrow> (token list \<times> tstate) option" where
  "unq_step t n v c =
     (if is_ws c then Some ([], BeforeAttrName (add_attr t n v))
      else if c = CHR ''>'' then Some ([emit_tag (add_attr t n v)], Data)
      else if c = CHR ''&'' then Some ([], AmpUnq t n v)
      else if uncovered c then None
      else Some ([], AttrValueUnq t n (v @ [c])))"

fun step :: "tstate \<Rightarrow> char \<Rightarrow> (token list \<times> tstate) option" where
  "step Data c = data_step c"
| "step AmpData c =
     (if ref_start c then None
      else map_option (\<lambda>(out, st). (Character CHR ''&'' # out, st)) (data_step c))"
| "step TagOpen c =
     (if c = CHR ''!'' \<or> c = CHR ''?'' then None
      else if c = CHR ''/'' then Some ([], EndTagOpen)
      else if is_alpha c then Some ([], TagName False [lower c])
      else map_option (\<lambda>(out, st). (Character CHR ''<'' # out, st)) (data_step c))"
| "step EndTagOpen c =
     (if is_alpha c then Some ([], TagName True [lower c])
      else if c = CHR ''>'' then Some ([], Data)
      else None)"
| "step (TagName e n) c =
     (if is_ws c then Some ([], BeforeAttrName (e, n, []))
      else if c = CHR ''/'' then Some ([], SelfClosing (e, n, []))
      else if c = CHR ''>'' then Some ([emit_tag (e, n, [])], Data)
      else if uncovered c then None
      else Some ([], TagName e (n @ [lower c])))"
| "step (BeforeAttrName t) c = before_attr_name_step t c"
| "step (AttrName t n) c =
     (if is_ws c then Some ([], AfterAttrName t n)
      else if c = CHR ''/'' then Some ([], SelfClosing (add_attr t n []))
      else if c = CHR ''>'' then Some ([emit_tag (add_attr t n [])], Data)
      else if c = CHR ''='' then Some ([], BeforeAttrValue t n)
      else if uncovered c then None
      else Some ([], AttrName t (n @ [lower c])))"
| "step (AfterAttrName t n) c =
     (if is_ws c then Some ([], AfterAttrName t n)
      else if c = CHR ''/'' then Some ([], SelfClosing (add_attr t n []))
      else if c = CHR ''='' then Some ([], BeforeAttrValue t n)
      else if c = CHR ''>'' then Some ([emit_tag (add_attr t n [])], Data)
      else if uncovered c then None
      else Some ([], AttrName (add_attr t n []) [lower c]))"
| "step (BeforeAttrValue t n) c =
     (if is_ws c then Some ([], BeforeAttrValue t n)
      else if c = CHR 0x22 then Some ([], AttrValueDQ t n [])
      else if c = CHR 0x27 then Some ([], AttrValueSQ t n [])
      else unq_step t n [] c)"
| "step (AttrValueDQ t n v) c = dq_step t n v c"
| "step (AmpDQ t n v) c = (if ref_start c then None else dq_step t n (v @ ''&'') c)"
| "step (AttrValueSQ t n v) c = sq_step t n v c"
| "step (AmpSQ t n v) c = (if ref_start c then None else sq_step t n (v @ ''&'') c)"
| "step (AttrValueUnq t n v) c = unq_step t n v c"
| "step (AmpUnq t n v) c = (if ref_start c then None else unq_step t n (v @ ''&'') c)"
| "step (AfterAttrValueQ t) c =
     (if is_ws c then Some ([], BeforeAttrName t)
      else if c = CHR ''/'' then Some ([], SelfClosing t)
      else if c = CHR ''>'' then Some ([emit_tag t], Data)
      else before_attr_name_step t c)"
| "step (SelfClosing t) c =
     (if c = CHR ''>'' then Some ([emit_tag t], Data)
      else before_attr_name_step t c)"

text \<open>
  At the end of the input a pending \<^verbatim>\<open><\<close> or \<^verbatim>\<open>&\<close> is text and an unfinished tag is
  dropped.
\<close>

fun at_eof :: "tstate \<Rightarrow> token list" where
  "at_eof TagOpen = [Character CHR ''<'']"
| "at_eof AmpData = [Character CHR ''&'']"
| "at_eof EndTagOpen = [Character CHR ''<'', Character CHR ''/'']"
| "at_eof st = []"

fun tokenize :: "tstate \<Rightarrow> string \<Rightarrow> token list option" where
  "tokenize st [] = Some (at_eof st)"
| "tokenize st (c # cs) =
     (case step st c of
        None \<Rightarrow> None
      | Some (out, st') \<Rightarrow> map_option ((@) out) (tokenize st' cs))"

subsection \<open>Tree construction\<close>

text \<open>
  The stack of open elements, innermost first, each with the children it has so far,
  and the nodes of the fragment's top level.
\<close>

type_synonym frame = "string \<times> (string \<times> string) list \<times> node list"

type_synonym builder = "frame list \<times> node list"

definition headings :: "string set" where
  "headings = {''h1'', ''h2'', ''h3'', ''h4'', ''h5'', ''h6''}"

fun append_char :: "char \<Rightarrow> node list \<Rightarrow> node list" where
  "append_char c [] = [Text [c]]"
| "append_char c [Text s] = [Text (s @ [c])]"
| "append_char c [Element t a l ch] = [Element t a l ch, Text [c]]"
| "append_char c (n # m # ns) = n # append_char c (m # ns)"

fun insert_char :: "char \<Rightarrow> builder \<Rightarrow> builder" where
  "insert_char c ([], roots) = ([], append_char c roots)"
| "insert_char c ((t, a, ch) # fs, roots) = ((t, a, append_char c ch) # fs, roots)"

fun insert_node :: "node \<Rightarrow> builder \<Rightarrow> builder" where
  "insert_node n ([], roots) = ([], roots @ [n])"
| "insert_node n ((t, a, ch) # fs, roots) = ((t, a, ch @ [n]) # fs, roots)"

fun push :: "string \<Rightarrow> (string \<times> string) list \<Rightarrow> builder \<Rightarrow> builder" where
  "push t a (fs, roots) = ((t, a, []) # fs, roots)"

fun pop :: "builder \<Rightarrow> builder" where
  "pop ([], roots) = ([], roots)"
| "pop ((t, a, ch) # fs, roots) = insert_node (Element t a [] ch) (fs, roots)"

lemma length_insert_node [simp]: "length (fst (insert_node n (fs, roots))) = length fs"
  by (cases fs) auto

fun pop_until :: "(string \<Rightarrow> bool) \<Rightarrow> builder \<Rightarrow> builder" where
  "pop_until P ([], roots) = ([], roots)"
| "pop_until P ((t, a, ch) # fs, roots) =
     (if P t then pop ((t, a, ch) # fs, roots)
      else pop_until P (insert_node (Element t a [] ch) (fs, roots)))"

fun close_all :: "builder \<Rightarrow> node list" where
  "close_all ([], roots) = roots"
| "close_all ((t, a, ch) # fs, roots) = close_all (insert_node (Element t a [] ch) (fs, roots))"

text \<open>
  Of the covered elements none bounds the default scope, and \<^verbatim>\<open>button\<close> bounds the
  button scope.
\<close>

definition in_scope :: "(string \<Rightarrow> bool) \<Rightarrow> builder \<Rightarrow> bool" where
  "in_scope P b = (\<exists>f \<in> set (fst b). P (fst f))"

fun p_in_button_scope_frames :: "frame list \<Rightarrow> bool" where
  "p_in_button_scope_frames [] = False"
| "p_in_button_scope_frames ((t, a, ch) # fs) =
     (if t = ''p'' then True else if t = ''button'' then False else p_in_button_scope_frames fs)"

definition p_in_button_scope :: "builder \<Rightarrow> bool" where
  "p_in_button_scope b = p_in_button_scope_frames (fst b)"

text \<open>Of the covered elements only \<^verbatim>\<open>p\<close> has an implied end tag.\<close>

fun generate_implied_end_tags :: "builder \<Rightarrow> builder" where
  "generate_implied_end_tags ([], roots) = ([], roots)"
| "generate_implied_end_tags ((t, a, ch) # fs, roots) =
     (if t = ''p'' then generate_implied_end_tags (insert_node (Element t a [] ch) (fs, roots))
      else ((t, a, ch) # fs, roots))"

definition close_p :: "builder \<Rightarrow> builder" where
  "close_p b = pop_until (\<lambda>t. t = ''p'') b"

definition close_p_if_open :: "builder \<Rightarrow> builder" where
  "close_p_if_open b = (if p_in_button_scope b then close_p b else b)"

definition current_is_heading :: "builder \<Rightarrow> bool" where
  "current_is_heading b = (case fst b of [] \<Rightarrow> False | f # fs \<Rightarrow> fst f \<in> headings)"

definition start_tag :: "string \<Rightarrow> (string \<times> string) list \<Rightarrow> builder \<Rightarrow> builder option" where
  "start_tag t a b =
     (if t = ''div'' \<or> t = ''p'' then Some (push t a (close_p_if_open b))
      else if t \<in> headings then
        (let b1 = close_p_if_open b;
             b2 = (if current_is_heading b1 then pop b1 else b1)
         in Some (push t a b2))
      else if t = ''button'' then
        (let b1 = (if in_scope (\<lambda>x. x = ''button'') b
                   then pop_until (\<lambda>x. x = ''button'') (generate_implied_end_tags b)
                   else b)
         in Some (push t a b1))
      else if t = ''img'' \<or> t = ''input'' then Some (insert_node (Element t a [] []) b)
      else None)"

definition end_tag :: "string \<Rightarrow> builder \<Rightarrow> builder option" where
  "end_tag t b =
     (if t = ''div'' \<or> t = ''button'' then
        (if in_scope (\<lambda>x. x = t) b
         then Some (pop_until (\<lambda>x. x = t) (generate_implied_end_tags b))
         else Some b)
      else if t = ''p'' then
        (if p_in_button_scope b then Some (close_p b)
         else Some (insert_node (Element ''p'' [] [] []) b))
      else if t \<in> headings then
        (if in_scope (\<lambda>x. x \<in> headings) b
         then Some (pop_until (\<lambda>x. x \<in> headings) (generate_implied_end_tags b))
         else Some b)
      else if t = ''img'' \<or> t = ''input'' then Some b
      else None)"

fun build :: "token list \<Rightarrow> builder \<Rightarrow> node list option" where
  "build [] b = Some (close_all b)"
| "build (Character c # ts) b = build ts (insert_char c b)"
| "build (StartTag t a # ts) b =
     (case start_tag t a b of None \<Rightarrow> None | Some b' \<Rightarrow> build ts b')"
| "build (EndTag t # ts) b =
     (case end_tag t b of None \<Rightarrow> None | Some b' \<Rightarrow> build ts b')"

definition parse_fragment :: "string \<Rightarrow> node list option" where
  "parse_fragment s =
     (case tokenize Data s of None \<Rightarrow> None | Some ts \<Rightarrow> build ts ([], []))"

text \<open>
  The description as a parser.  Of the elements covered, none is treated differently in
  the three contexts the program parses in (\<^verbatim>\<open>main\<close>, \<^verbatim>\<open>div\<close> and \<^verbatim>\<open>form\<close>).
\<close>

definition html_parse :: html_parser where
  "html_parse ctx s = parse_fragment s"


definition parse_inner :: "html_parser \<Rightarrow> string \<Rightarrow> string \<Rightarrow> node list js" where
  "parse_inner parse ctx s =
     (case parse ctx s of None \<Rightarrow> js_throw OutsideModel | Some ns \<Rightarrow> js_return ns)"

section \<open>The document operations the program uses\<close>

definition main_set_innerHTML :: "html_parser \<Rightarrow> string \<Rightarrow> unit js" where
  "main_set_innerHTML parse s =
     js_bind (parse_inner parse ''main'' s) (\<lambda>ns w. (Inr (), w\<lparr>main_children := ns\<rparr>))"

definition main_appendChild :: "node \<Rightarrow> unit js" where
  "main_appendChild n w = (Inr (), w\<lparr>main_children := main_children w @ [n]\<rparr>)"

text \<open>
  The tokens of a \<^verbatim>\<open>class\<close> attribute: its value split at ASCII whitespace.  A class
  selector compares them exactly (the document is taken to be in no-quirks mode).
\<close>

fun split_ws :: "string \<Rightarrow> string \<Rightarrow> string list" where
  "split_ws cur [] = (if cur = [] then [] else [cur])"
| "split_ws cur (c # cs) =
     (if is_ws c \<or> c = CHR 0x0D
      then (if cur = [] then split_ws [] cs else cur # split_ws [] cs)
      else split_ws (cur @ [c]) cs)"

definition has_class :: "string \<Rightarrow> (string \<times> string) list \<Rightarrow> bool" where
  "has_class cls attrs =
     (case map_of attrs ''class'' of None \<Rightarrow> False | Some v \<Rightarrow> cls \<in> set (split_ws [] v))"

text \<open>
  \<^verbatim>\<open>e.querySelector("." + cls).addEventListener(ev, f)\<close> on the children of \<^verbatim>\<open>e\<close>:
  the first element in document order that has the class gets the listener; \<open>None\<close>
  when no element has it (\<^verbatim>\<open>querySelector\<close> gives \<^verbatim>\<open>null\<close>, and the call on it throws).
\<close>

fun add_listener_first :: "string \<Rightarrow> string \<times> handler \<Rightarrow> node list \<Rightarrow> node list option" where
  "add_listener_first cls h [] = None"
| "add_listener_first cls h (Text s # ns) =
     map_option ((#) (Text s)) (add_listener_first cls h ns)"
| "add_listener_first cls h (Element t a l ch # ns) =
     (if has_class cls a then Some (Element t a (l @ [h]) ch # ns)
      else case add_listener_first cls h ch of
             Some ch' \<Rightarrow> Some (Element t a l ch' # ns)
           | None \<Rightarrow> map_option ((#) (Element t a l ch)) (add_listener_first cls h ns))"

text \<open>
  The same on \<^verbatim>\<open>playerElement\<close>, which at that point is the last child of \<^verbatim>\<open><main>\<close>:
  the element in the page is the one that changes.
\<close>

fun card_add_listener :: "node \<Rightarrow> string \<Rightarrow> string \<times> handler \<Rightarrow> node js" where
  "card_add_listener (Text s) cls h = js_throw TypeError"
| "card_add_listener (Element t a l ch) cls h =
     (case add_listener_first cls h ch of
        None \<Rightarrow> js_throw TypeError
      | Some ch' \<Rightarrow> (\<lambda>w. (Inr (Element t a l ch'),
                           w\<lparr>main_children := butlast (main_children w) @ [Element t a l ch']\<rparr>)))"

definition main_add_listener :: "string \<Rightarrow> string \<times> handler \<Rightarrow> unit js" where
  "main_add_listener cls h w =
     (case add_listener_first cls h (main_children w) of
        None \<Rightarrow> (Inl TypeError, w)
      | Some ns \<Rightarrow> (Inr (), w\<lparr>main_children := ns\<rparr>))"

fun for_each :: "('a \<Rightarrow> unit js) \<Rightarrow> 'a list \<Rightarrow> unit js" where
  "for_each f [] = js_return ()"
| "for_each f (x # xs) = js_bind (f x) (\<lambda>_. for_each f xs)"

text \<open>\<^verbatim>\<open>playerList.forEach(f)\<close>: only an array has the method.\<close>

fun forEach :: "jsval \<Rightarrow> (jsval \<Rightarrow> unit js) \<Rightarrow> unit js" where
  "forEach (JArr xs) f = for_each f xs"
| "forEach v f = js_throw TypeError"

section \<open>The renderers\<close>

definition nl :: string where
  "nl = [CHR 0x0A]"

definition dq :: string where
  "dq = [CHR 0x22]"

text \<open>
  The template literal of a card: each substitution is read and converted to a string
  in its turn, and the first one that throws ends the evaluation.
\<close>

definition card_template :: "jsval \<Rightarrow> string js" where
  "card_template player =
     js_bind (js_lift (get_prop player ''name'')) (\<lambda>v1. js_bind (js_lift (to_string v1)) (\<lambda>name1.
     js_bind (js_lift (get_prop player ''id'')) (\<lambda>v2. js_bind (js_lift (to_string v2)) (\<lambda>id1.
     js_bind (js_lift (get_prop player ''imageUrl'')) (\<lambda>v3. js_bind (js_lift (to_string v3)) (\<lambda>imageUrl.
     js_bind (js_lift (get_prop player ''name'')) (\<lambda>v4. js_bind (js_lift (to_string v4)) (\<lambda>name2.
     js_bind (js_lift (get_prop player ''id'')) (\<lambda>v5. js_bind (js_lift (to_string v5)) (\<lambda>id2.
     js_return
       (nl @ ''      <h4>'' @ name1 @ ''</h4>'' @
        nl @ ''      <p>'' @ id1 @ ''</p>'' @
        nl @ ''      <img src='' @ imageUrl @ '' alt='' @ name2 @ ''/>'' @
        nl @ ''      <button class='' @ dq @ ''remove-button'' @ dq @ '' data-id='' @ dq @
               id2 @ dq @ ''>Remove from Roster</button>'' @
        nl @ ''      <button class='' @ dq @ ''detail-button'' @ dq @ ''>See Details</button>'' @
        nl @ ''    '')))))))))))"

definition render_card :: "html_parser \<Rightarrow> jsval \<Rightarrow> unit js" where
  "render_card parse player =
     js_bind (card_template player) (\<lambda>html.
     js_bind (parse_inner parse ''div'' html) (\<lambda>kids.
     js_bind (main_appendChild (Element ''div'' [(''class'', ''player-card'')] [] kids)) (\<lambda>_.
     js_bind (card_add_listener (Element ''div'' [(''class'', ''player-card'')] [] kids)
                ''remove-button'' (''click'', RemoveClick player)) (\<lambda>playerElement.
     js_bind (card_add_listener playerElement
                ''detail-button'' (''click'', DetailClick player)) (\<lambda>_.
     js_return ())))))"

definition renderAllPlayers :: "html_parser \<Rightarrow> jsval \<Rightarrow> jsval js" where
  "renderAllPlayers parse playerList =
     (if falsy playerList \<or> get_prop playerList ''length'' = Inr (JNum ''0'')
      then js_bind (main_set_innerHTML parse ''<h3>No Players Found!</h3>'') (\<lambda>_.
           js_return JUndefined)
      else js_bind (main_set_innerHTML parse []) (\<lambda>_.
           js_bind (forEach playerList (render_card parse)) (\<lambda>_.
           js_return JUndefined)))"

definition single_player_template :: "jsval \<Rightarrow> string js" where
  "single_player_template player =
     js_bind (js_lift (get_prop player ''name'')) (\<lambda>v1. js_bind (js_lift (to_string v1)) (\<lambda>name1.
     js_bind (js_lift (get_prop player ''id'')) (\<lambda>v2. js_bind (js_lift (to_string v2)) (\<lambda>id1.
     js_bind (js_lift (get_prop player ''breed'')) (\<lambda>v3. js_bind (js_lift (to_string v3)) (\<lambda>breed.
     js_bind (js_lift (get_prop player ''imageUrl'')) (\<lambda>v4. js_bind (js_lift (to_string v4)) (\<lambda>imageUrl.
     js_bind (js_lift (get_prop player ''name'')) (\<lambda>v5. js_bind (js_lift (to_string v5)) (\<lambda>name2.
     js_return
       (nl @ ''    <div class='' @ dq @ ''single-player'' @ dq @ ''>'' @
        nl @ ''      <div>'' @
        nl @ ''        <h4>'' @ name1 @ ''</h4>'' @
        nl @ ''        <p>'' @ id1 @ ''</p>'' @
        nl @ ''        <p>'' @ breed @ ''</p>'' @
        nl @ ''        <img src='' @ imageUrl @ '' alt='' @ name2 @ ''/>'' @
        nl @ ''      </div>'' @
        nl @ ''      <button class='' @ dq @ ''back-button'' @ dq @ ''>Back to all Players</button>'' @
        nl @ ''    </div>'' @
        nl @ ''  '')))))))))))"

definition renderSinglePlayer :: "html_parser \<Rightarrow> jsval \<Rightarrow> jsval js" where
  "renderSinglePlayer parse player =
     (if falsy player
      then js_bind (main_set_innerHTML parse ''<h3>No Player Found!</h3>'') (\<lambda>_.
           js_return JUndefined)
      else js_bind (single_player_template player) (\<lambda>html.
           js_bind (main_set_innerHTML parse html) (\<lambda>_.
           js_bind (main_add_listener ''back-button'' (''click'', BackClick)) (\<lambda>_.
           js_return JUndefined))))"

section \<open>The form\<close>

definition form_template :: string where
  "form_template =
     nl @ ''      <input type='' @ dq @ ''text'' @ dq @ '' id='' @ dq @ ''name'' @ dq @
            '' name='' @ dq @ ''name'' @ dq @ '' placeholder='' @ dq @ ''Name'' @ dq @ '' />'' @
     nl @ ''      <input type='' @ dq @ ''text'' @ dq @ '' id='' @ dq @ ''breed'' @ dq @
            '' name='' @ dq @ ''breed'' @ dq @ '' placeholder='' @ dq @ ''Breed'' @ dq @ '' />'' @
     nl @ ''      <input type='' @ dq @ ''text'' @ dq @ '' id='' @ dq @ ''imageUrl'' @ dq @
            '' name='' @ dq @ ''imageUrl'' @ dq @ '' placeholder='' @ dq @ ''Image Url'' @ dq @
            '' />'' @
     nl @ ''      <button type='' @ dq @ ''submit'' @ dq @ ''>Submit</button>'' @
     nl @ ''    ''"

text \<open>
  The inputs the markup creates are new elements without a \<^verbatim>\<open>value\<close> attribute: their
  values are empty.
\<close>

definition form_set_innerHTML :: "html_parser \<Rightarrow> string \<Rightarrow> unit js" where
  "form_set_innerHTML parse s =
     js_bind (parse_inner parse ''form'' s) (\<lambda>ns w.
       (Inr (), w\<lparr>form_children := ns, name_value := [], breed_value := [],
                   imageUrl_value := []\<rparr>))"

definition form_addEventListener :: "string \<times> handler \<Rightarrow> unit js" where
  "form_addEventListener h w = (Inr (), w\<lparr>form_listeners := form_listeners w @ [h]\<rparr>)"

definition renderNewPlayerForm :: "html_parser \<Rightarrow> jsval js" where
  "renderNewPlayerForm parse =
     try_catch
       (js_bind (form_set_innerHTML parse form_template) (\<lambda>_.
        js_bind (form_addEventListener (''submit'', SubmitForm)) (\<lambda>_.
        js_return JUndefined)))
       (\<lambda>err. js_bind
          (console_error ''Uh oh, trouble rendering the new player form!'' err)
          (\<lambda>_. js_return JUndefined))"

section \<open>The event listeners\<close>

definition read_form :: "jsval js" where
  "read_form w =
     (Inr (JObj [(''name'', JStr (name_value w)), (''breed'', JStr (breed_value w)),
                 (''imageUrl'', JStr (imageUrl_value w))]), w)"

definition clear_form :: "unit js" where
  "clear_form w = (Inr (), w\<lparr>name_value := [], breed_value := [], imageUrl_value := []\<rparr>)"

text \<open>
  Each listener is run here until it and the requests it started are done.  The listener
  of the remove button does not wait for \<^verbatim>\<open>removePlayer\<close> and drops its promise; what
  that call still does when its request settles (it logs a failure) is part of the run.
\<close>

definition submit_listener :: "html_parser \<Rightarrow> network \<Rightarrow> jsval js" where
  "submit_listener parse net =
     js_bind preventDefault (\<lambda>_.
     js_bind read_form (\<lambda>playerData.
     js_bind (addNewPlayer net playerData) (\<lambda>_.
     js_bind (fetchAllPlayers net) (\<lambda>players.
     js_bind (renderAllPlayers parse players) (\<lambda>_.
     js_bind clear_form (\<lambda>_.
     js_return JUndefined))))))"








subsection \<open>A submit event with several listeners\<close>

text \<open>
  The listeners registered on the form run in the order of their registration, each up
  to its first \<^verbatim>\<open>await\<close>: that is inside \<^verbatim>\<open>addNewPlayer\<close>, right after \<^verbatim>\<open>fetch\<close> has
  issued the POST.  What is left of a listener runs when its request has settled.  The
  order among these continuations depends on the network; they are taken in the order
  of registration, each to its end.  With one listener this is \<open>submit_listener\<close>.
\<close>

definition submit_begin :: "network \<Rightarrow> fetch_result js" where
  "submit_begin net =
     js_bind preventDefault (\<lambda>_.
     js_bind read_form (\<lambda>playerData.
     fetch net (post_request playerData)))"

text \<open>What \<^verbatim>\<open>addNewPlayer\<close> does once the promise of its \<^verbatim>\<open>fetch\<close> has settled.\<close>

definition addNewPlayer_settled :: "fetch_result \<Rightarrow> jsval js" where
  "addNewPlayer_settled p =
     try_catch
       (js_bind (await_response p) (\<lambda>response.
        js_bind (await_json response) (\<lambda>result.
        js_return result)))
       (\<lambda>err. js_bind
          (console_error ''Oops, something went wrong with adding that player!'' err)
          (\<lambda>_. js_return JUndefined))"

definition submit_resume :: "html_parser \<Rightarrow> network \<Rightarrow> fetch_result \<Rightarrow> jsval js" where
  "submit_resume parse net p =
     js_bind (addNewPlayer_settled p) (\<lambda>_.
     js_bind (fetchAllPlayers net) (\<lambda>players.
     js_bind (renderAllPlayers parse players) (\<lambda>_.
     js_bind clear_form (\<lambda>_.
     js_return JUndefined))))"

fun begin_all :: "network \<Rightarrow> (string \<times> handler) list \<Rightarrow> world \<Rightarrow> fetch_result list \<times> world" where
  "begin_all net [] w = ([], w)"
| "begin_all net (l # ls) w =
     (case submit_begin net w of
        (Inl e, w1) \<Rightarrow> begin_all net ls w1
      | (Inr p, w1) \<Rightarrow> (case begin_all net ls w1 of (ps, w2) \<Rightarrow> (p # ps, w2)))"

fun resume_all :: "html_parser \<Rightarrow> network \<Rightarrow> fetch_result list \<Rightarrow> world \<Rightarrow> world" where
  "resume_all parse net [] w = w"
| "resume_all parse net (p # ps) w = resume_all parse net ps (snd (submit_resume parse net p w))"

definition dispatch_submit :: "html_parser \<Rightarrow> network \<Rightarrow> world \<Rightarrow> world" where
  "dispatch_submit parse net w =
     (case begin_all net (filter (\<lambda>l. l = (''submit'', SubmitForm)) (form_listeners w)) w of
        (ps, w1) \<Rightarrow> resume_all parse net ps w1)"

definition init :: "html_parser \<Rightarrow> network \<Rightarrow> jsval js" where
  "init parse net =
     js_bind (fetchAllPlayers net) (\<lambda>players.
     js_bind (renderAllPlayers parse players) (\<lambda>_.
     js_bind (renderNewPlayerForm parse) (\<lambda>_.
     js_return JUndefined)))"

section \<open>Notions used in the statements\<close>

text \<open>What the network answers to the request \<open>r\<close> when it is issued in the state \<open>w\<close>.\<close>

definition settlement :: "network \<Rightarrow> world \<Rightarrow> request \<Rightarrow> fetch_result" where
  "settlement net w r = net (requests_of (effects w) @ [r])"

definition logged :: "world \<Rightarrow> effect list \<Rightarrow> world" where
  "logged w es = w\<lparr>effects := effects w @ es\<rparr>"

text \<open>
  The failures of the transport and of the decoding: what \<^verbatim>\<open>await fetch(...)\<close> followed by
  \<^verbatim>\<open>await response.json()\<close> throws.
\<close>

fun failure :: "fetch_result \<Rightarrow> js_error option" where
  "failure Rejected = Some NetworkFailure"
| "failure (Responded st BadJSON) = Some DecodeFailure"
| "failure (Responded st (Json v)) = None"


text \<open>
  What the body of \<^verbatim>\<open>fetchAllPlayers\<close> makes of a settlement: the failure of the
  transport or of the decoding, the TypeError of reading \<^verbatim>\<open>result.data.players\<close>, or the
  value read.  Then what the function returns, and what it writes to the console.
\<close>

fun players_of :: "fetch_result \<Rightarrow> js_error + jsval" where
  "players_of Rejected = Inl NetworkFailure"
| "players_of (Responded st BadJSON) = Inl DecodeFailure"
| "players_of (Responded st (Json result)) =
     (case get_prop result ''data'' of Inl e \<Rightarrow> Inl e | Inr d \<Rightarrow> get_prop d ''players'')"

definition fetched :: "fetch_result \<Rightarrow> jsval" where
  "fetched r = (case players_of r of Inl e \<Rightarrow> JUndefined | Inr v \<Rightarrow> v)"

definition fetch_log :: "fetch_result \<Rightarrow> effect list" where
  "fetch_log r =
     (case players_of r of
        Inl e \<Rightarrow> [ConsoleError ''Uh oh, trouble fetching players!'' e]
      | Inr v \<Rightarrow> [])"

text \<open>The same for \<^verbatim>\<open>addNewPlayer\<close>.\<close>

fun added :: "fetch_result \<Rightarrow> jsval" where
  "added (Responded st (Json result)) = result"
| "added r = JUndefined"

definition add_log :: "fetch_result \<Rightarrow> effect list" where
  "add_log r =
     (case failure r of
        Some e \<Rightarrow> [ConsoleError ''Oops, something went wrong with adding that player!'' e]
      | None \<Rightarrow> [])"

text \<open>A page whose containers are empty, before anything has happened.\<close>

definition world0 :: world where
  "world0 = \<lparr>main_children = [], form_children = [], form_listeners = [], name_value = [],
             breed_value = [], imageUrl_value = [], effects = []\<rparr>"

text \<open>A computation that reads and changes nothing but the children of \<^verbatim>\<open><main>\<close>.\<close>

definition main_only :: "'a js \<Rightarrow> bool" where
  "main_only m = (\<exists>g. \<forall>w. m w = (fst (g (main_children w)), w\<lparr>main_children := snd (g (main_children w))\<rparr>))"

text \<open>A value whose conversion to a string throws: \<^verbatim>\<open>JSON.parse('{"toString":1}')\<close>.\<close>

definition no_string :: jsval where
  "no_string = JObj [(''toString'', JNum ''1'')]"

subsection \<open>Field values in the markup\<close>

text \<open>
  \<open>run\<close> is the tokenizer stopped before the end of the input: the tokens emitted so far
  and the state reached.
\<close>

fun run :: "tstate \<Rightarrow> string \<Rightarrow> (token list \<times> tstate) option" where
  "run st [] = Some ([], st)"
| "run st (c # cs) =
     (case step st c of
        None \<Rightarrow> None
      | Some (out, st') \<Rightarrow>
          (case run st' cs of None \<Rightarrow> None | Some (out', st'') \<Rightarrow> Some (out @ out', st'')))"


text \<open>
  A string that, written between double quotes, is read as that attribute value: the
  same without the condition on \<^verbatim>\<open><\<close>, and with no double quote.
\<close>

fun quoted_ok :: "string \<Rightarrow> bool" where
  "quoted_ok [] = True"
| "quoted_ok [c] = (\<not> uncovered c \<and> c \<noteq> CHR 0x22)"
| "quoted_ok (c # d # cs) =
     (\<not> uncovered c \<and> c \<noteq> CHR 0x22 \<and> \<not> (c = CHR ''&'' \<and> ref_start d) \<and> quoted_ok (d # cs))"

text \<open>
  Both templates write the source and the alternative text of the image without quotes:
  \<^verbatim>\<open><img src=${player.imageUrl} alt=${player.name}/>\<close>.  What the tokenizer makes of it,
  from the state it is in after \<^verbatim>\<open><img src=\<close>, depends on both values.  They are fit for
  the image when the result is one start tag, possibly followed by text, with the
  tokenizer back in the data state: then \<open>img_attrs\<close> are the attributes of the image and
  \<open>img_rest\<close> is the text.  (The text is empty unless one of the values has a \<^verbatim>\<open>>\<close>
  outside quotes.)
\<close>

fun is_character :: "token \<Rightarrow> bool" where
  "is_character (Character c) = True"
| "is_character t = False"

fun token_char :: "token \<Rightarrow> char" where
  "token_char (Character c) = c"
| "token_char t = CHR 0x00"

definition tag_then_text :: "(token list \<times> tstate) option \<Rightarrow> bool" where
  "tag_then_text r =
     (case r of Some (StartTag t a # rest, Data) \<Rightarrow> list_all is_character rest | _ \<Rightarrow> False)"

definition tag_attrs :: "(token list \<times> tstate) option \<Rightarrow> (string \<times> string) list" where
  "tag_attrs r = (case r of Some (StartTag t a # rest, st) \<Rightarrow> a | _ \<Rightarrow> [])"

definition text_after :: "(token list \<times> tstate) option \<Rightarrow> string" where
  "text_after r = (case r of Some (tok # rest, st) \<Rightarrow> map token_char rest | _ \<Rightarrow> [])"

definition img_tokens :: "string \<Rightarrow> string \<Rightarrow> (token list \<times> tstate) option" where
  "img_tokens u n =
     run (BeforeAttrValue (False, ''img'', []) ''src'') (u @ '' alt='' @ n @ ''/>'')"

definition img_ok :: "string \<Rightarrow> string \<Rightarrow> bool" where
  "img_ok u n = tag_then_text (img_tokens u n)"

definition img_attrs :: "string \<Rightarrow> string \<Rightarrow> (string \<times> string) list" where
  "img_attrs u n = tag_attrs (img_tokens u n)"

definition img_rest :: "string \<Rightarrow> string \<Rightarrow> string" where
  "img_rest u n = text_after (img_tokens u n)"

text \<open>
  The same for the identifier in the tag of the remove button,
  \<^verbatim>\<open><button class="remove-button" data-id="${player.id}">\<close>, from the state the tokenizer
  is in after \<^verbatim>\<open>data-id="\<close>.  (For an identifier without a double quote the attributes
  are the class and the identifier, and no text follows.)
\<close>

definition btn_tokens :: "string \<Rightarrow> (token list \<times> tstate) option" where
  "btn_tokens i =
     run (AttrValueDQ (False, ''button'', [(''class'', ''remove-button'')]) ''data-id'' [])
       (i @ dq @ ''>'')"

definition btn_ok :: "string \<Rightarrow> bool" where
  "btn_ok i = tag_then_text (btn_tokens i)"

definition btn_attrs :: "string \<Rightarrow> (string \<times> string) list" where
  "btn_attrs i = tag_attrs (btn_tokens i)"

definition btn_rest :: "string \<Rightarrow> string" where
  "btn_rest i = text_after (btn_tokens i)"




text \<open>
  Strings without whitespace and without any of \<^verbatim>\<open>< > & " '\<close>, NUL and carriage return:
  such values are fit for the image.
\<close>

definition plain_char :: "char \<Rightarrow> bool" where
  "plain_char c = (c \<notin> set [CHR ''<'', CHR ''>'', CHR ''&'', CHR 0x22, CHR 0x27, CHR 0x00, CHR 0x0D])"

definition unspaced :: "string \<Rightarrow> bool" where
  "unspaced s = list_all (\<lambda>c. plain_char c \<and> \<not> is_ws c) s"

fun append_text :: "string \<Rightarrow> node list \<Rightarrow> node list" where
  "append_text s [] = (if s = [] then [] else [Text s])"
| "append_text s [Text x] = [Text (x @ s)]"
| "append_text s [Element t a l ch] = (if s = [] then [Element t a l ch] else [Element t a l ch, Text s])"
| "append_text s (n # m # ns) = n # append_text s (m # ns)"


subsection \<open>What the renderers are expected to produce\<close>

definition read_prop :: "jsval \<Rightarrow> string \<Rightarrow> jsval" where
  "read_prop v k = (case get_prop v k of Inl e \<Rightarrow> JUndefined | Inr x \<Rightarrow> x)"


definition shown :: "jsval \<Rightarrow> string \<Rightarrow> string" where
  "shown p k = (case to_string (read_prop p k) of Inl e \<Rightarrow> [] | Inr s \<Rightarrow> s)"


text \<open>
  The remove button of a card for the identifier \<open>i\<close>, and the details button, with
  their listeners; the children of a card for the name \<open>n\<close>, the identifier \<open>i\<close>, the
  attributes \<open>A\<close> of the image and the text \<open>x\<close> after it.
\<close>

definition remove_button :: "string \<Rightarrow> (string \<times> handler) list \<Rightarrow> node" where
  "remove_button i r =
     Element ''button'' (btn_attrs i) r [Text (btn_rest i @ ''Remove from Roster'')]"

definition detail_button :: "(string \<times> handler) list \<Rightarrow> node" where
  "detail_button d = Element ''button'' [(''class'', ''detail-button'')] d [Text ''See Details'']"

definition card_children ::
  "string \<Rightarrow> string \<Rightarrow> (string \<times> string) list \<Rightarrow> string \<Rightarrow>
   (string \<times> handler) list \<Rightarrow> (string \<times> handler) list \<Rightarrow> node list" where
  "card_children n i A x r d =
     [Text (nl @ ''      ''), Element ''h4'' [] [] (append_text n []),
      Text (nl @ ''      ''), Element ''p'' [] [] (append_text i []),
      Text (nl @ ''      ''), Element ''img'' A [] [],
      Text (x @ nl @ ''      ''),
      remove_button i r,
      Text (nl @ ''      ''),
      detail_button d,
      Text (nl @ ''    '')]"


definition player_card :: "jsval \<Rightarrow> node" where
  "player_card p =
     Element ''div'' [(''class'', ''player-card'')] []
       (card_children (shown p ''name'') (shown p ''id'')
          (img_attrs (shown p ''imageUrl'') (shown p ''name''))
          (img_rest (shown p ''imageUrl'') (shown p ''name''))
          [(''click'', RemoveClick p)] [(''click'', DetailClick p)])"

fun by_tag :: "string \<Rightarrow> node list \<Rightarrow> node list" where
  "by_tag t [] = []"
| "by_tag t (Text s # ns) = by_tag t ns"
| "by_tag t (Element t' a l ch # ns) =
     (if t' = t then [Element t' a l ch] else []) @ by_tag t ch @ by_tag t ns"

fun by_class :: "string \<Rightarrow> node list \<Rightarrow> node list" where
  "by_class c [] = []"
| "by_class c (Text s # ns) = by_class c ns"
| "by_class c (Element t a l ch # ns) =
     (if has_class c a then [Element t a l ch] else []) @ by_class c ch @ by_class c ns"

fun text_content :: "node \<Rightarrow> string" and text_content_list :: "node list \<Rightarrow> string" where
  "text_content (Text s) = s"
| "text_content (Element t a l ch) = text_content_list ch"
| "text_content_list [] = []"
| "text_content_list (n # ns) = text_content n @ text_content_list ns"

text \<open>\<^verbatim>\<open>getAttribute\<close>\<close>

fun attribute :: "string \<Rightarrow> node \<Rightarrow> string option" where
  "attribute k (Text s) = None"
| "attribute k (Element t a l ch) = map_of a k"







subsection \<open>The form and its submission\<close>

text \<open>
  The record the submit listener assembles from the inputs, and its serialisation; the
  two requests of a submission, and what the network answers to them when the
  submission begins in the state \<open>w\<close>; the user's typing; \<open>k\<close> calls of
  \<^verbatim>\<open>renderNewPlayerForm\<close>; the number of submit listeners on the form.
\<close>

definition form_record :: "world \<Rightarrow> jsval" where
  "form_record w =
     JObj [(''name'', JStr (name_value w)), (''breed'', JStr (breed_value w)),
           (''imageUrl'', JStr (imageUrl_value w))]"

definition record_json :: "string \<Rightarrow> string \<Rightarrow> string \<Rightarrow> string" where
  "record_json n b u =
     ''{'' @ json_quote ''name'' @ '':'' @ json_quote n @ '','' @
             json_quote ''breed'' @ '':'' @ json_quote b @ '','' @
             json_quote ''imageUrl'' @ '':'' @ json_quote u @ ''}''"

definition list_request :: request where
  "list_request = get_request (API_URL @ ''/players'')"

definition post_settlement :: "network \<Rightarrow> world \<Rightarrow> fetch_result" where
  "post_settlement net w = net (requests_of (effects w) @ [post_request (form_record w)])"

definition list_settlement :: "network \<Rightarrow> world \<Rightarrow> fetch_result" where
  "list_settlement net w =
     net (requests_of (effects w) @ [post_request (form_record w), list_request])"

definition typed :: "string \<Rightarrow> string \<Rightarrow> string \<Rightarrow> world \<Rightarrow> world" where
  "typed n b u w = w\<lparr>name_value := n, breed_value := b, imageUrl_value := u\<rparr>"

fun render_form_times :: "html_parser \<Rightarrow> nat \<Rightarrow> world \<Rightarrow> world" where
  "render_form_times parse 0 w = w"
| "render_form_times parse (Suc k) w = snd (renderNewPlayerForm parse (render_form_times parse k w))"

definition submit_listeners :: "world \<Rightarrow> nat" where
  "submit_listeners w = length (filter (\<lambda>l. l = (''submit'', SubmitForm)) (form_listeners w))"

subsection \<open>Sample data\<close>

definition rex :: jsval where
  "rex = JObj [(''id'', JNum ''1''), (''name'', JStr ''Rex''), (''breed'', JStr ''Labrador''),
               (''imageUrl'', JStr ''http://x/rex.png'')]"

definition rex_jr :: jsval where
  "rex_jr = JObj [(''id'', JNum ''27''), (''name'', JStr ''Rex Jr''), (''breed'', JStr ''Labrador''),
               (''imageUrl'', JStr ''http://x/jr.png'')]"


definition quote_named :: jsval where
  "quote_named = JObj [(''id'', JNum ''2''), (''name'', JStr [CHR 0x22]), (''breed'', JStr ''Pug''),
               (''imageUrl'', JStr ''http://x/q.png'')]"


text \<open>A server that answers every request with the same list of players.\<close>

definition players_reply :: "jsval list \<Rightarrow> network" where
  "players_reply ps h =
     Responded 200 (Json (JObj [(''success'', JBool True),
                                (''data'', JObj [(''players'', JArr ps)])]))"

section \<open>The API client: lemmas\<close>

lemmas js_defs = js_bind_def js_return_def js_throw_def js_lift_def try_catch_def
  console_error_def preventDefault_def fetch_def await_response_def await_json_def

lemma requests_of_append: "requests_of (es @ fs) = requests_of es @ requests_of fs"
  by (induction es rule: requests_of.induct) auto

lemma get_prop_Inl: "get_prop v k = Inl e \<Longrightarrow> e = TypeError"
  by (cases v) (auto split: option.splits if_splits)

lemma players_of_Inl: "players_of r = Inl e \<Longrightarrow> e \<noteq> OutsideModel"
  by (cases r rule: players_of.cases) (auto split: sum.splits dest: get_prop_Inl)

lemma fetchAllPlayers_eq:
  "fetchAllPlayers net w =
     (Inr (fetched (settlement net w list_request)),
      logged w (Fetch list_request # fetch_log (settlement net w list_request)))"
  by (cases "settlement net w list_request" rule: players_of.cases)
     (auto simp add: fetchAllPlayers_def js_defs settlement_def logged_def list_request_def
        fetched_def fetch_log_def split: sum.splits dest: get_prop_Inl)

lemma addNewPlayer_eq:
  "addNewPlayer net playerObj w =
     (Inr (added (settlement net w (post_request playerObj))),
      logged w (Fetch (post_request playerObj) #
                add_log (settlement net w (post_request playerObj))))"
  by (cases "settlement net w (post_request playerObj)" rule: failure.cases)
     (auto simp add: addNewPlayer_def js_defs settlement_def logged_def add_log_def)

lemma fetchSinglePlayer_cases:
  assumes "to_string playerId = Inr s"
  shows "fetchSinglePlayer net playerId w =
     (let r = get_request (API_URL @ ''/players/'' @ s);
          msg = ''Oh no, trouble fetching player #'' @ s @ ''!''
      in case settlement net w r of
        Rejected \<Rightarrow> (Inr JUndefined, logged w [Fetch r, ConsoleError msg NetworkFailure])
      | Responded st BadJSON \<Rightarrow> (Inr JUndefined, logged w [Fetch r, ConsoleError msg DecodeFailure])
      | Responded st (Json result) \<Rightarrow>
          (case get_prop result ''data'' of
             Inl e \<Rightarrow> (Inr JUndefined, logged w [Fetch r, ConsoleError msg TypeError])
           | Inr d \<Rightarrow> (Inr d, logged w [Fetch r])))"
  using assms
  by (auto simp add: fetchSinglePlayer_def js_defs settlement_def logged_def Let_def
      split: fetch_result.splits response_body.splits sum.splits dest: get_prop_Inl)


lemma removePlayer_cases:
  assumes "to_string playerId = Inr s"
  shows "removePlayer net playerId w =
     (let msg = ''Whoops, trouble removing player #'' @ s @ '' from the roster!''
      in case settlement net w (delete_request s) of
        Rejected \<Rightarrow> (Inr JUndefined, logged w [Fetch (delete_request s), ConsoleError msg NetworkFailure])
      | Responded st b \<Rightarrow> (Inr JUndefined, logged w [Fetch (delete_request s)]))"
  using assms
  by (auto simp add: removePlayer_def js_defs settlement_def logged_def Let_def
      split: fetch_result.splits response_body.splits sum.splits)


lemma requests_of_fetch_log [simp]: "requests_of (fetch_log r) = []"
  by (simp add: fetch_log_def split: sum.splits)

lemma requests_of_add_log [simp]: "requests_of (add_log r) = []"
  by (simp add: add_log_def split: option.splits)

lemma stringify_record:
  "stringify (JObj [(''name'', JStr n), (''breed'', JStr b), (''imageUrl'', JStr u)]) =
     Some (record_json n b u)"
  by (simp add: record_json_def)

lemma stringify_None: "(stringify v = None) = (v = JUndefined)"
  by (cases v) simp_all

section \<open>The renderers: lemmas\<close>

lemmas tok_eval = data_step_def before_attr_name_step_def dq_step_def sq_step_def unq_step_def
  is_ws_def uncovered_def lower_def is_alpha_def is_digit_def ref_start_def tag_start_def
  add_attr_def emit_tag_def

lemmas build_eval = start_tag_def end_tag_def
  headings_def in_scope_def p_in_button_scope_def close_p_def close_p_if_open_def
  current_is_heading_def

lemmas html_eval = parse_fragment_def tok_eval build_eval

lemma parse_no_players:
  "parse_fragment ''<h3>No Players Found!</h3>'' = Some [Element ''h3'' [] [] [Text ''No Players Found!'']]"
  by (simp add: html_eval)

lemma parse_no_player:
  "parse_fragment ''<h3>No Player Found!</h3>'' = Some [Element ''h3'' [] [] [Text ''No Player Found!'']]"
  by (simp add: html_eval)

lemma parse_empty: "parse_fragment [] = Some []"
  by (simp add: html_eval)


lemma main_onlyI: "(\<And>w. m w = (fst (g (main_children w)), w\<lparr>main_children := snd (g (main_children w))\<rparr>)) \<Longrightarrow> main_only m"
  unfolding main_only_def by blast

lemma main_only_return [simp]: "main_only (js_return v)"
  by (rule main_onlyI [where g = "\<lambda>ns. (Inr v, ns)"]) (simp add: js_return_def)

lemma main_only_throw [simp]: "main_only (js_throw e)"
  by (rule main_onlyI [where g = "\<lambda>ns. (Inl e, ns)"]) (simp add: js_throw_def)

lemma main_only_lift [simp]: "main_only (js_lift r)"
  by (rule main_onlyI [where g = "\<lambda>ns. (r, ns)"]) (simp add: js_lift_def)

lemma main_only_bind:
  assumes "main_only m" and "\<And>v. main_only (f v)"
  shows "main_only (js_bind m f)"
proof -
  from assms(1) obtain g where g: "\<And>w. m w = (fst (g (main_children w)), w\<lparr>main_children := snd (g (main_children w))\<rparr>)"
    unfolding main_only_def by blast
  from assms(2) have "\<forall>v. \<exists>h. \<forall>w. f v w = (fst (h (main_children w)), w\<lparr>main_children := snd (h (main_children w))\<rparr>)"
    unfolding main_only_def by blast
  then obtain h where h: "\<And>v w. f v w = (fst (h v (main_children w)), w\<lparr>main_children := snd (h v (main_children w))\<rparr>)"
    by metis
  show ?thesis
    by (rule main_onlyI [where g = "\<lambda>ns. case g ns of (Inl e, ns') \<Rightarrow> (Inl e, ns') | (Inr v, ns') \<Rightarrow> h v ns'"])
       (simp add: js_bind_def g h split: prod.splits sum.splits)
qed

lemma main_only_parse_inner [simp]: "main_only (parse_inner parse ctx s)"
  by (simp add: parse_inner_def split: option.splits)

lemma main_only_set_innerHTML [simp]: "main_only (main_set_innerHTML parse s)"
  by (rule main_onlyI [where g = "\<lambda>ns. case parse ''main'' s of None \<Rightarrow> (Inl OutsideModel, ns) | Some ns' \<Rightarrow> (Inr (), ns')"])
     (simp add: main_set_innerHTML_def parse_inner_def js_defs split: option.splits)

lemma main_only_appendChild [simp]: "main_only (main_appendChild n)"
  by (rule main_onlyI [where g = "\<lambda>ns. (Inr (), ns @ [n])"]) (simp add: main_appendChild_def)

lemma main_only_card_add_listener [simp]: "main_only (card_add_listener el cls h)"
proof (cases el)
  case (Text s)
  then show ?thesis by simp
next
  case (Element t a l ch)
  show ?thesis
  proof (cases "add_listener_first cls h ch")
    case None
    with Element show ?thesis by simp
  next
    case (Some ch')
    with Element show ?thesis
      by (intro main_onlyI [where g = "\<lambda>ns. (Inr (Element t a l ch'), butlast ns @ [Element t a l ch'])"]) simp
  qed
qed

lemma main_only_main_add_listener [simp]: "main_only (main_add_listener cls h)"
  by (rule main_onlyI [where g = "\<lambda>ns. case add_listener_first cls h ns of None \<Rightarrow> (Inl TypeError, ns) | Some ns' \<Rightarrow> (Inr (), ns')"])
     (simp add: main_add_listener_def split: option.splits)

lemma main_only_card_template [simp]: "main_only (card_template p)"
  unfolding card_template_def by (intro main_only_bind main_only_lift main_only_return)

lemma main_only_render_card [simp]: "main_only (render_card parse p)"
  unfolding render_card_def
  by (intro main_only_bind main_only_card_template main_only_parse_inner main_only_appendChild
      main_only_card_add_listener main_only_return)

lemma main_only_for_each: "(\<And>x. main_only (f x)) \<Longrightarrow> main_only (for_each f xs)"
  by (induction xs) (auto intro: main_only_bind)

lemma main_only_forEach [simp]: "main_only (forEach v (render_card parse))"
  by (cases v) (auto intro: main_only_for_each)

lemma main_only_renderAllPlayers [simp]: "main_only (renderAllPlayers parse playerList)"
  unfolding renderAllPlayers_def
  by (auto intro!: main_only_bind)

text \<open>
  What a computation of this kind does to \<^verbatim>\<open><main>\<close>, and whether it returns, is the same
  in two states with the same children of \<^verbatim>\<open><main>\<close>; everything else it leaves as it is.
\<close>

lemma main_only_frame:
  assumes "main_only m" and "main_children w' = main_children w"
  shows "fst (m w') = fst (m w)" and "main_children (snd (m w')) = main_children (snd (m w))"
    and "effects (snd (m w')) = effects w'" and "name_value (snd (m w')) = name_value w'"
    and "breed_value (snd (m w')) = breed_value w'"
    and "imageUrl_value (snd (m w')) = imageUrl_value w'"
    and "form_listeners (snd (m w')) = form_listeners w'"
proof -
  from assms(1) obtain g where g: "\<And>w. m w = (fst (g (main_children w)), w\<lparr>main_children := snd (g (main_children w))\<rparr>)"
    unfolding main_only_def by blast
  show "fst (m w') = fst (m w)" "main_children (snd (m w')) = main_children (snd (m w))"
    "effects (snd (m w')) = effects w'" "name_value (snd (m w')) = name_value w'"
    "breed_value (snd (m w')) = breed_value w'"
    "imageUrl_value (snd (m w')) = imageUrl_value w'"
    "form_listeners (snd (m w')) = form_listeners w'"
    using assms(2) by (simp_all add: g)
qed

lemma bind_set_innerHTML:
  "parse ''main'' s = Some ns \<Longrightarrow>
   js_bind (main_set_innerHTML parse s) f w = f () (w\<lparr>main_children := ns\<rparr>)"
  by (simp add: main_set_innerHTML_def parse_inner_def js_bind_def js_return_def)

lemma renderAllPlayers_const:
  assumes "parse ''main'' [] \<noteq> None" and "parse ''main'' ''<h3>No Players Found!</h3>'' \<noteq> None"
  shows "\<exists>r ns. \<forall>w. renderAllPlayers parse playerList w = (r, w\<lparr>main_children := ns\<rparr>)"
proof (cases "falsy playerList \<or> get_prop playerList ''length'' = Inr (JNum ''0'')")
  case True
  from assms(2) obtain ns where ns: "parse ''main'' ''<h3>No Players Found!</h3>'' = Some ns"
    by auto
  have "\<forall>w. renderAllPlayers parse playerList w = (Inr JUndefined, w\<lparr>main_children := ns\<rparr>)"
    using True ns by (simp add: renderAllPlayers_def bind_set_innerHTML js_return_def)
  then show ?thesis by blast
next
  case False
  from assms(1) obtain ns where ns: "parse ''main'' [] = Some ns"
    by auto
  have "main_only (js_bind (forEach playerList (render_card parse)) (\<lambda>_. js_return JUndefined))"
    by (intro main_only_bind) simp_all
  then obtain g where g: "\<And>w. js_bind (forEach playerList (render_card parse)) (\<lambda>_. js_return JUndefined) w
      = (fst (g (main_children w)), w\<lparr>main_children := snd (g (main_children w))\<rparr>)"
    unfolding main_only_def by blast
  have "\<forall>w. renderAllPlayers parse playerList w = (fst (g ns), w\<lparr>main_children := snd (g ns)\<rparr>)"
    using False ns
    by (simp add: renderAllPlayers_def bind_set_innerHTML g)
  then show ?thesis by blast
qed

section \<open>The tokenizer on the field values: lemmas\<close>

lemma run_append:
  "run st (a @ b) =
     (case run st a of
        None \<Rightarrow> None
      | Some (o1, st1) \<Rightarrow>
          (case run st1 b of None \<Rightarrow> None | Some (o2, st2) \<Rightarrow> Some (o1 @ o2, st2)))"
  by (induction a arbitrary: st) (auto split: option.splits)



lemma not_start [simp]:
  "\<not> ref_start CHR ''&''" "\<not> ref_start CHR ''<''" "\<not> ref_start CHR 0x22"
  "\<not> tag_start CHR ''<''" "\<not> tag_start CHR ''&''"
  by (simp_all add: ref_start_def tag_start_def is_alpha_def lower_def is_digit_def)




lemma quoted_ok_Cons:
  "quoted_ok (c # s) \<Longrightarrow>
     \<not> uncovered c \<and> c \<noteq> CHR 0x22 \<and> quoted_ok s \<and>
     (c = CHR ''&'' \<longrightarrow> s = [] \<or> \<not> ref_start (hd s))"
  by (cases s) auto

lemma run_quoted_aux:
  "quoted_ok s \<Longrightarrow>
     run (AttrValueDQ t k v) (s @ dq) = Some ([], AfterAttrValueQ (add_attr t k (v @ s))) \<and>
     (s = [] \<or> \<not> ref_start (hd s) \<longrightarrow>
        run (AmpDQ t k v) (s @ dq) = Some ([], AfterAttrValueQ (add_attr t k (v @ ''&'' @ s))))"
proof (induction s arbitrary: v)
  case Nil
  show ?case by (simp add: dq_def dq_step_def)
next
  case (Cons c s)
  from quoted_ok_Cons [OF Cons.prems] have c: "\<not> uncovered c" "c \<noteq> CHR 0x22" and s: "quoted_ok s"
    and amp: "c = CHR ''&'' \<longrightarrow> s = [] \<or> \<not> ref_start (hd s)"
    by simp_all
  note IH = Cons.IH [OF s]
  show ?case
  proof (cases "c = CHR ''&''")
    case True
    with IH [of v] IH [of "v @ ''&''"] amp show ?thesis
      by (simp add: dq_step_def)
  next
    case False
    with IH [of "v @ [c]"] IH [of "v @ ''&'' @ [c]"] c show ?thesis
      by (simp add: dq_step_def)
  qed
qed

lemma run_quoted:
  "quoted_ok s \<Longrightarrow> run (AttrValueDQ t k []) (s @ dq) = Some ([], AfterAttrValueQ (add_attr t k s))"
  using run_quoted_aux [of s t k "[]"] by simp













text \<open>An identifier without a double quote.\<close>

lemma btn_quoted:
  assumes "quoted_ok i"
  shows "btn_ok i" and "btn_attrs i = [(''class'', ''remove-button''), (''data-id'', i)]"
    and "btn_rest i = []"
proof -
  have 1: "run (AttrValueDQ (False, ''button'', [(''class'', ''remove-button'')]) ''data-id'' []) (i @ dq) =
      Some ([], AfterAttrValueQ (False, ''button'', [(''class'', ''remove-button''), (''data-id'', i)]))"
    using run_quoted [OF assms, of "(False, ''button'', [(''class'', ''remove-button'')])" "''data-id''"]
    by (simp add: add_attr_def)
  have 2: "run (AfterAttrValueQ (False, ''button'', [(''class'', ''remove-button''), (''data-id'', i)])) ''>'' =
      Some ([StartTag ''button'' [(''class'', ''remove-button''), (''data-id'', i)]], Data)"
    by (simp add: tok_eval)
  have "run (AttrValueDQ (False, ''button'', [(''class'', ''remove-button'')]) ''data-id'' [])
      ((i @ dq) @ ''>'') =
      Some ([StartTag ''button'' [(''class'', ''remove-button''), (''data-id'', i)]], Data)"
    using 1 2 by (simp only: run_append) simp
  then have t: "btn_tokens i =
      Some ([StartTag ''button'' [(''class'', ''remove-button''), (''data-id'', i)]], Data)"
    by (simp add: btn_tokens_def)
  show "btn_ok i" "btn_attrs i = [(''class'', ''remove-button''), (''data-id'', i)]" "btn_rest i = []"
    by (simp_all add: btn_ok_def btn_attrs_def btn_rest_def t tag_then_text_def tag_attrs_def
        text_after_def)
qed

section \<open>The tree builder on text: lemmas\<close>

lemma append_char_not_Nil [simp]: "append_char c ch \<noteq> []"
  by (induction c ch rule: append_char.induct) auto





section \<open>The fragment parser on the card markup: lemmas\<close>







lemma has_class_buttons [simp]:
  "has_class ''detail-button'' [(''class'', ''detail-button'')]"
  "\<not> has_class ''remove-button'' [(''class'', ''detail-button'')]"
  "\<not> has_class ''remove-button'' [(''class'', ''player-card'')]"
  "\<not> has_class ''detail-button'' [(''class'', ''player-card'')]"
  "\<not> has_class c []"
  by (simp_all add: has_class_def is_ws_def)

lemma append_text_Nil_views [simp]:
  "add_listener_first cls h (append_text s []) = None"
  "by_class c (append_text s []) = []"
  "by_tag t (append_text s []) = []"
  "text_content_list (append_text s []) = s"
  by simp_all











subsection \<open>Fields without whitespace\<close>

lemma run_unquoted:
  "unspaced s \<Longrightarrow> run (AttrValueUnq t k v) s = Some ([], AttrValueUnq t k (v @ s))"
  by (induction s arbitrary: v) (auto simp: unspaced_def plain_char_def uncovered_def unq_step_def)

lemma run_before_value:
  assumes "unspaced s" and "s \<noteq> []"
  shows "run (BeforeAttrValue t k) s = Some ([], AttrValueUnq t k s)"
proof (cases s)
  case Nil
  with assms show ?thesis by simp
next
  case (Cons c cs)
  with assms have c: "plain_char c" "\<not> is_ws c" and cs: "unspaced cs"
    by (simp_all add: unspaced_def)
  from c have "step (BeforeAttrValue t k) c = Some ([], AttrValueUnq t k [c])"
    by (auto simp: plain_char_def uncovered_def unq_step_def)
  with Cons run_unquoted [OF cs, of t k "[c]"] show ?thesis by simp
qed

lemma img_tokens_unspaced:
  assumes "unspaced u" and "u \<noteq> []" and "unspaced n"
  shows "img_tokens u n = Some ([StartTag ''img'' [(''src'', u), (''alt'', n @ ''/'')]], Data)"
proof -
  have 1: "run (BeforeAttrValue (False, ''img'', []) ''src'') u =
      Some ([], AttrValueUnq (False, ''img'', []) ''src'' u)"
    by (rule run_before_value [OF assms(1,2)])
  have 2: "run (AttrValueUnq (False, ''img'', []) ''src'' u) '' alt='' =
      Some ([], BeforeAttrValue (False, ''img'', [(''src'', u)]) ''alt'')"
    by (simp add: tok_eval)
  have n: "unspaced (n @ ''/'')"
    using assms(3) by (simp add: unspaced_def plain_char_def is_ws_def)
  have 3: "run (BeforeAttrValue (False, ''img'', [(''src'', u)]) ''alt'') (n @ ''/'') =
      Some ([], AttrValueUnq (False, ''img'', [(''src'', u)]) ''alt'' (n @ ''/''))"
    by (rule run_before_value [OF n]) simp
  have 4: "run (AttrValueUnq (False, ''img'', [(''src'', u)]) ''alt'' (n @ ''/'')) ''>'' =
      Some ([StartTag ''img'' [(''src'', u), (''alt'', n @ ''/'')]], Data)"
    by (simp add: tok_eval)
  have "run (BeforeAttrValue (False, ''img'', []) ''src'') (u @ '' alt='' @ (n @ ''/'') @ ''>'') =
      Some ([StartTag ''img'' [(''src'', u), (''alt'', n @ ''/'')]], Data)"
    using 1 2 3 4 by (simp only: run_append) simp
  then show ?thesis by (simp add: img_tokens_def)
qed

text \<open>
  For such fields the image is fit, no text follows it, and its alternative text is the
  name followed by a slash: the slash that was meant to close the tag is read as part of
  the unquoted value.
\<close>

lemma img_unspaced:
  assumes "unspaced u" and "u \<noteq> []" and "unspaced n"
  shows "img_ok u n" and "img_attrs u n = [(''src'', u), (''alt'', n @ ''/'')]" and "img_rest u n = []"
  by (simp_all add: img_ok_def img_attrs_def img_rest_def img_tokens_unspaced [OF assms]
      tag_then_text_def tag_attrs_def text_after_def)

lemma player_card_alt:
  assumes "unspaced (shown p ''name'')" and "unspaced (shown p ''imageUrl'')"
    and "shown p ''imageUrl'' \<noteq> []"
  shows "map (attribute ''alt'') (by_tag ''img'' [player_card p]) = [Some (shown p ''name'' @ ''/'')]"
  using assms
  by (simp add: player_card_def card_children_def img_unspaced remove_button_def detail_button_def)

section \<open>The fragment parser on the markup of the single player: lemmas\<close>





lemma has_class_back [simp]:
  "has_class ''back-button'' [(''class'', ''back-button'')]"
  "\<not> has_class ''back-button'' [(''class'', ''single-player'')]"
  by (simp_all add: has_class_def is_ws_def)






section \<open>The listeners: lemmas\<close>

lemma logged_fields [simp]:
  "main_children (logged w es) = main_children w"
  "effects (logged w es) = effects w @ es"
  "name_value (logged w es) = name_value w"
  "breed_value (logged w es) = breed_value w"
  "imageUrl_value (logged w es) = imageUrl_value w"
  "form_listeners (logged w es) = form_listeners w"
  by (simp_all add: logged_def)

lemma form_record_logged [simp]: "form_record (logged w es) = form_record w"
  by (simp add: form_record_def)

lemma logged_logged [simp]: "logged (logged w es) fs = logged w (es @ fs)"
  by (simp add: logged_def)

lemma settlement_logged:
  "settlement net (logged w es) r = net (requests_of (effects w) @ requests_of es @ [r])"
  by (simp add: settlement_def requests_of_append)

text \<open>The submit listener up to the call of \<^verbatim>\<open>renderAllPlayers\<close>.\<close>

lemma submit_listener_eq:
  "submit_listener parse net w =
     js_bind (renderAllPlayers parse (fetched (list_settlement net w))) (\<lambda>_.
     js_bind clear_form (\<lambda>_. js_return JUndefined))
       (logged w ([PreventDefault, Fetch (post_request (form_record w))] @
                  add_log (post_settlement net w) @
                  [Fetch list_request] @ fetch_log (list_settlement net w)))"
proof -
  have 1: "preventDefault w = (Inr (), logged w [PreventDefault])"
    by (simp add: preventDefault_def logged_def)
  have 2: "read_form w' = (Inr (form_record w'), w')" for w'
    by (simp add: read_form_def form_record_def)
  have 3: "settlement net (logged w [PreventDefault]) (post_request (form_record w)) =
      post_settlement net w"
    by (simp add: settlement_logged post_settlement_def)
  have 4: "settlement net
      (logged w (PreventDefault # Fetch (post_request (form_record w)) # add_log (post_settlement net w)))
      list_request = list_settlement net w"
    by (simp add: settlement_logged list_settlement_def requests_of_append)
  show ?thesis
    unfolding submit_listener_def
    by (simp add: js_bind_def 1 2 addNewPlayer_eq fetchAllPlayers_eq 3 4)
qed

lemma submit_listener_cases:
  fixes parse net w
  defines "w3 \<equiv> logged w ([PreventDefault, Fetch (post_request (form_record w))] @
                  add_log (post_settlement net w) @
                  [Fetch list_request] @ fetch_log (list_settlement net w))"
  defines "r \<equiv> renderAllPlayers parse (fetched (list_settlement net w)) w3"
  shows "submit_listener parse net w =
     (case fst r of
        Inl e \<Rightarrow> (Inl e, snd r)
      | Inr v \<Rightarrow> (Inr JUndefined, (snd r)\<lparr>name_value := [], breed_value := [], imageUrl_value := []\<rparr>))"
  unfolding submit_listener_eq r_def w3_def
  by (simp add: js_bind_def clear_form_def js_return_def split: prod.splits sum.splits)

lemma parse_form_template:
  "parse_fragment form_template =
     Some [Text (nl @ ''      ''),
        Element ''input''
         [(''type'', ''text''), (''id'', ''name''), (''name'', ''name''),
          (''placeholder'', ''Name'')] [] [],
        Text (nl @ ''      ''),
        Element ''input''
         [(''type'', ''text''), (''id'', ''breed''), (''name'', ''breed''),
          (''placeholder'', ''Breed'')] [] [],
        Text (nl @ ''      ''),
        Element ''input''
         [(''type'', ''text''), (''id'', ''imageUrl''),
          (''name'', ''imageUrl''), (''placeholder'', ''Image Url'')] [] [],
        Text (nl @ ''      ''),
        Element ''button'' [(''type'', ''submit'')] [] [Text ''Submit''],
        Text (nl @ ''    '')]"
  by code_simp

lemma renderNewPlayerForm_eq:
  "renderNewPlayerForm html_parse w =
     (Inr JUndefined,
      w\<lparr>form_children := the (parse_fragment form_template), name_value := [], breed_value := [],
         imageUrl_value := [],
         form_listeners := form_listeners w @ [(''submit'', SubmitForm)]\<rparr>)"
  by (simp add: renderNewPlayerForm_def try_catch_def js_bind_def form_set_innerHTML_def
      parse_inner_def html_parse_def parse_form_template js_return_def form_addEventListener_def)

lemma render_form_times_fields:
  "form_listeners (render_form_times html_parse k w) =
     form_listeners w @ replicate k (''submit'', SubmitForm)
   \<and> effects (render_form_times html_parse k w) = effects w"
  by (induction k) (simp_all add: renderNewPlayerForm_eq replicate_append_same)

lemma addNewPlayer_split:
  "addNewPlayer net playerObj =
     js_bind (fetch net (post_request playerObj)) addNewPlayer_settled"
  by (rule ext)
     (simp add: addNewPlayer_def addNewPlayer_settled_def try_catch_def js_bind_def fetch_def)

lemma submit_listener_split:
  "submit_listener parse net = js_bind (submit_begin net) (submit_resume parse net)"
  by (rule ext)
     (simp add: submit_listener_def submit_begin_def submit_resume_def addNewPlayer_split
      js_bind_def preventDefault_def read_form_def fetch_def split: prod.splits sum.splits)

lemma submit_begin_eq:
  "submit_begin net w =
     (Inr (settlement net (logged w [PreventDefault]) (post_request (form_record w))),
      logged w [PreventDefault, Fetch (post_request (form_record w))])"
  by (simp add: submit_begin_def js_bind_def preventDefault_def read_form_def fetch_def
      settlement_def logged_def form_record_def)

lemma begin_all_eq:
  "\<exists>ps. begin_all net ls w =
      (ps, logged w (concat (replicate (length ls)
             [PreventDefault, Fetch (post_request (form_record w))])))
    \<and> length ps = length ls"
proof (induction ls arbitrary: w)
  case Nil
  then show ?case by (simp add: logged_def)
next
  case (Cons l ls)
  from Cons [of "logged w [PreventDefault, Fetch (post_request (form_record w))]"]
  show ?case by (auto simp: submit_begin_eq)
qed

lemma addNewPlayer_settled_eq:
  "addNewPlayer_settled p w = (Inr (added p), logged w (add_log p))"
  by (cases p rule: failure.cases)
     (simp_all add: addNewPlayer_settled_def js_defs logged_def add_log_def)

lemma submit_resume_requests:
  "requests_of (effects (snd (submit_resume parse net p w))) =
     requests_of (effects w) @ [list_request]"
proof -
  define w1 where "w1 = logged w (add_log p)"
  define w2 where "w2 = logged w1 (Fetch list_request # fetch_log (settlement net w1 list_request))"
  define players where "players = fetched (settlement net w1 list_request)"
  have a: "addNewPlayer_settled p w = (Inr (added p), w1)"
    by (simp add: addNewPlayer_settled_eq w1_def)
  have f: "fetchAllPlayers net w1 = (Inr players, w2)"
    by (simp add: fetchAllPlayers_eq w2_def players_def)
  obtain r w3 where r: "renderAllPlayers parse players w2 = (r, w3)"
    by (cases "renderAllPlayers parse players w2")
  have e: "effects w3 = effects w2"
    using main_only_frame(3) [OF main_only_renderAllPlayers refl, of parse players w2] r by simp
  have "requests_of (effects w2) = requests_of (effects w) @ [list_request]"
    by (simp add: w2_def w1_def requests_of_append)
  then show ?thesis
    using e
    by (cases r) (simp_all add: submit_resume_def js_bind_def a f r clear_form_def js_return_def)
qed

lemma resume_all_requests:
  "requests_of (effects (resume_all parse net ps w)) =
     requests_of (effects w) @ replicate (length ps) list_request"
  by (induction ps arbitrary: w) (simp_all add: submit_resume_requests replicate_append_same)

lemma requests_of_begin:
  "requests_of (concat (replicate n [PreventDefault, Fetch r])) = replicate n r"
  by (induction n) simp_all

lemma dispatch_submit_requests:
  "requests_of (effects (dispatch_submit parse net w)) =
     requests_of (effects w) @
       replicate (submit_listeners w) (post_request (form_record w)) @
       replicate (submit_listeners w) list_request"
proof -
  obtain ps where b: "begin_all net (filter (\<lambda>l. l = (''submit'', SubmitForm)) (form_listeners w)) w =
      (ps, logged w (concat (replicate (submit_listeners w)
             [PreventDefault, Fetch (post_request (form_record w))])))"
    and l: "length ps = submit_listeners w"
    using begin_all_eq [of net "filter (\<lambda>l. l = (''submit'', SubmitForm)) (form_listeners w)" w]
    by (auto simp: submit_listeners_def)
  show ?thesis
    by (simp add: dispatch_submit_def b resume_all_requests l requests_of_append
        requests_of_begin)
qed



section \<open>Properties\<close>

text \<open>
  Claim C7, amended.  For every argument, \<^verbatim>\<open>addNewPlayer\<close> issues exactly one request: a
  POST to the players endpoint whose only header is \<^verbatim>\<open>Content-Type: application/json\<close>
  and whose body is what \<^verbatim>\<open>JSON.stringify\<close> gives for the argument.  That is a JSON text
  for every argument but \<^verbatim>\<open>undefined\<close>, for which the request has no body; for the
  record of a name, a breed and an image URL it is the object with these three members
  in this order.  For every identifier whose conversion to a string does not throw,
  \<^verbatim>\<open>removePlayer\<close> issues exactly one request: a DELETE whose URL, as it is given to
  \<^verbatim>\<open>fetch\<close>, ends in the identifier as a template literal prints it.
\<close>

theorem api_client_requests:
  assumes "well_formed playerObj" and "to_string playerId = Inr s"
  shows "requests_of (effects (snd (addNewPlayer net playerObj w))) =
     requests_of (effects w) @
       [\<lparr>req_method = ''POST'', req_url = API_URL @ ''/players'',
         req_headers = [(''Content-Type'', ''application/json'')],
         req_body = stringify playerObj\<rparr>]
   \<and> (stringify playerObj = None) = (playerObj = JUndefined)
   \<and> stringify (JObj [(''name'', JStr n), (''breed'', JStr b), (''imageUrl'', JStr u)]) =
       Some (record_json n b u)
   \<and> requests_of (effects (snd (removePlayer net playerId w))) =
     requests_of (effects w) @
       [\<lparr>req_method = ''DELETE'', req_url = API_URL @ ''/players/'' @ s,
         req_headers = [], req_body = None\<rparr>]"
proof -
  have a: "requests_of (effects (snd (addNewPlayer net playerObj w))) =
     requests_of (effects w) @
       [\<lparr>req_method = ''POST'', req_url = API_URL @ ''/players'',
         req_headers = [(''Content-Type'', ''application/json'')],
         req_body = stringify playerObj\<rparr>]"
    by (simp add: addNewPlayer_eq requests_of_append post_request_def)
  have b: "requests_of (effects (snd (removePlayer net playerId w))) =
     requests_of (effects w) @
       [\<lparr>req_method = ''DELETE'', req_url = API_URL @ ''/players/'' @ s,
         req_headers = [], req_body = None\<rparr>]"
    by (simp add: removePlayer_cases [OF assms(2)] Let_def requests_of_append delete_request_def
        split: fetch_result.splits)
  from a b stringify_None [of playerObj] stringify_record [of n b u] show ?thesis
    by blast
qed

theorem api_client_requests_witness:
  "requests_of (effects (snd (addNewPlayer (\<lambda>h. Rejected)
       (JObj [(''name'', JStr ''Rex''), (''breed'', JStr ''Labrador''),
              (''imageUrl'', JStr ''http://x/rex.png'')]) world0))) =
     [\<lparr>req_method = ''POST'',
       req_url = ''https://fsa-puppy-bowl.herokuapp.com/api/2406-FTB-MT-WEB-PT/players'',
       req_headers = [(''Content-Type'', ''application/json'')],
       req_body = Some (''{'' @ dq @ ''name'' @ dq @ '':'' @ dq @ ''Rex'' @ dq @ '','' @
                        dq @ ''breed'' @ dq @ '':'' @ dq @ ''Labrador'' @ dq @ '','' @
                        dq @ ''imageUrl'' @ dq @ '':'' @ dq @ ''http://x/rex.png'' @ dq @ ''}'')\<rparr>]
 \<and> requests_of (effects (snd (removePlayer (\<lambda>h. Rejected) (JNum ''7'') world0))) =
     [\<lparr>req_method = ''DELETE'',
       req_url = ''https://fsa-puppy-bowl.herokuapp.com/api/2406-FTB-MT-WEB-PT/players/7'',
       req_headers = [], req_body = None\<rparr>]"
proof -
  have wf: "well_formed (JObj [(''name'', JStr ''Rex''), (''breed'', JStr ''Labrador''),
              (''imageUrl'', JStr ''http://x/rex.png'')])"
    by code_simp
  have j: "record_json ''Rex'' ''Labrador'' ''http://x/rex.png'' =
      ''{'' @ dq @ ''name'' @ dq @ '':'' @ dq @ ''Rex'' @ dq @ '','' @
      dq @ ''breed'' @ dq @ '':'' @ dq @ ''Labrador'' @ dq @ '','' @
      dq @ ''imageUrl'' @ dq @ '':'' @ dq @ ''http://x/rex.png'' @ dq @ ''}''"
    by code_simp
  show ?thesis
    using api_client_requests [where playerObj = "JObj [(''name'', JStr ''Rex''),
          (''breed'', JStr ''Labrador''), (''imageUrl'', JStr ''http://x/rex.png'')]"
        and playerId = "JNum ''7''" and s = "''7''" and net = "\<lambda>h. Rejected" and w = world0
        and n = "''Rex''" and b = "''Labrador''" and u = "''http://x/rex.png''"] wf j
    by (simp add: world0_def API_URL_def cohortName_def)
qed

theorem api_client_requests_counterexample:
  "removePlayer (\<lambda>h. Responded 200 (Json JNull)) no_string world0 = (Inl TypeError, world0)
 \<and> requests_of (effects (snd (removePlayer (\<lambda>h. Responded 200 (Json JNull)) no_string world0))) = []
 \<and> map req_body (requests_of (effects (snd (addNewPlayer (\<lambda>h. Responded 200 (Json JNull))
       JUndefined world0)))) = [None]"
  by code_simp

text \<open>
  Claim C5.  Given \<^verbatim>\<open>undefined\<close>, \<^verbatim>\<open>null\<close> or the empty array, \<^verbatim>\<open>renderAllPlayers\<close>
  returns normally and leaves in \<^verbatim>\<open><main>\<close> the heading "No Players Found!" and no
  card; given \<^verbatim>\<open>undefined\<close> or \<^verbatim>\<open>null\<close>, \<^verbatim>\<open>renderSinglePlayer\<close> returns normally and
  leaves the heading "No Player Found!".
\<close>

theorem renderers_absent_input:
  "renderAllPlayers html_parse JUndefined w = (Inr JUndefined, w\<lparr>main_children := [Element ''h3'' [] [] [Text ''No Players Found!'']]\<rparr>)
 \<and> renderAllPlayers html_parse JNull w = (Inr JUndefined, w\<lparr>main_children := [Element ''h3'' [] [] [Text ''No Players Found!'']]\<rparr>)
 \<and> renderAllPlayers html_parse (JArr []) w = (Inr JUndefined, w\<lparr>main_children := [Element ''h3'' [] [] [Text ''No Players Found!'']]\<rparr>)
 \<and> renderSinglePlayer html_parse JUndefined w = (Inr JUndefined, w\<lparr>main_children := [Element ''h3'' [] [] [Text ''No Player Found!'']]\<rparr>)
 \<and> renderSinglePlayer html_parse JNull w = (Inr JUndefined, w\<lparr>main_children := [Element ''h3'' [] [] [Text ''No Player Found!'']]\<rparr>)"
  by (simp add: renderAllPlayers_def renderSinglePlayer_def main_set_innerHTML_def parse_inner_def
      html_parse_def parse_no_players parse_no_player js_defs falsy_def digits.simps digit_char_def)

text \<open>
  Claim C8.  Whatever tree the parser gives for each string, for every argument and
  every state: what a call of \<^verbatim>\<open>renderAllPlayers\<close> leaves in \<^verbatim>\<open><main>\<close> does not depend
  on what was there before (the call replaces it), and rendering the list a second time
  gives the result and the state of rendering it once.
\<close>

theorem renderAllPlayers_idempotent:
  assumes "parse ''main'' [] \<noteq> None" and "parse ''main'' ''<h3>No Players Found!</h3>'' \<noteq> None"
  shows "main_children (snd (renderAllPlayers parse playerList (w\<lparr>main_children := before\<rparr>))) =
           main_children (snd (renderAllPlayers parse playerList w))
       \<and> renderAllPlayers parse playerList (snd (renderAllPlayers parse playerList w)) =
           renderAllPlayers parse playerList w"
proof -
  obtain r ns where "\<forall>w. renderAllPlayers parse playerList w = (r, w\<lparr>main_children := ns\<rparr>)"
    using renderAllPlayers_const [where parse = parse and playerList = playerList] assms by blast
  then show ?thesis by simp
qed

theorem renderAllPlayers_idempotent_witness:
  "main_children (snd (renderAllPlayers html_parse (JArr [rex, rex_jr])
       (world0\<lparr>main_children := [Text ''old'']\<rparr>))) =
     main_children (snd (renderAllPlayers html_parse (JArr [rex, rex_jr]) world0))
 \<and> renderAllPlayers html_parse (JArr [rex, rex_jr])
       (snd (renderAllPlayers html_parse (JArr [rex, rex_jr]) world0)) =
     renderAllPlayers html_parse (JArr [rex, rex_jr]) world0"
  using renderAllPlayers_idempotent [where parse = html_parse and playerList = "JArr [rex, rex_jr]"
      and w = world0 and before = "[Text ''old'']"]
  by (simp add: html_parse_def parse_empty parse_no_players)

text \<open>
  Claim C2, amended.  Let the identifier be a value whose conversion to a string does
  not throw.  Then none of the four operations of the API client throws: each returns a
  value.  When the request is rejected, or the body of the response fails to decode
  (for the three operations that decode it), the operation returns \<^verbatim>\<open>undefined\<close> and
  what it did is the request followed by one \<^verbatim>\<open>console.error\<close> with the message of
  that operation and the error.
\<close>

theorem api_client_catches_failures:
  assumes "to_string playerId = Inr s"
  shows "(\<exists>v. fst (fetchAllPlayers net w) = Inr v)
 \<and> (\<exists>v. fst (fetchSinglePlayer net playerId w) = Inr v)
 \<and> (\<exists>v. fst (addNewPlayer net playerObj w) = Inr v)
 \<and> (\<exists>v. fst (removePlayer net playerId w) = Inr v)
 \<and> (failure (settlement net w (get_request (API_URL @ ''/players''))) = Some err \<longrightarrow>
      fetchAllPlayers net w =
        (Inr JUndefined,
         logged w [Fetch (get_request (API_URL @ ''/players'')),
                   ConsoleError ''Uh oh, trouble fetching players!'' err]))
 \<and> (failure (settlement net w (get_request (API_URL @ ''/players/'' @ s))) = Some err \<longrightarrow>
      fetchSinglePlayer net playerId w =
        (Inr JUndefined,
         logged w [Fetch (get_request (API_URL @ ''/players/'' @ s)),
                   ConsoleError (''Oh no, trouble fetching player #'' @ s @ ''!'') err]))
 \<and> (failure (settlement net w (post_request playerObj)) = Some err \<longrightarrow>
      addNewPlayer net playerObj w =
        (Inr JUndefined,
         logged w [Fetch (post_request playerObj),
                   ConsoleError ''Oops, something went wrong with adding that player!'' err]))
 \<and> (settlement net w (delete_request s) = Rejected \<longrightarrow>
      removePlayer net playerId w =
        (Inr JUndefined,
         logged w [Fetch (delete_request s),
                   ConsoleError (''Whoops, trouble removing player #'' @ s @
                                 '' from the roster!'') NetworkFailure]))"
proof -
  have a: "\<exists>v. fst (fetchAllPlayers net w) = Inr v"
    by (simp add: fetchAllPlayers_eq)
  have b: "\<exists>v. fst (fetchSinglePlayer net playerId w) = Inr v"
    by (simp add: fetchSinglePlayer_cases [OF assms] Let_def
        split: fetch_result.splits response_body.splits sum.splits)
  have c: "\<exists>v. fst (addNewPlayer net playerObj w) = Inr v"
    by (simp add: addNewPlayer_eq)
  have d: "\<exists>v. fst (removePlayer net playerId w) = Inr v"
    by (simp add: removePlayer_cases [OF assms] Let_def split: fetch_result.splits)
  have e: "fetchAllPlayers net w =
        (Inr JUndefined,
         logged w [Fetch (get_request (API_URL @ ''/players'')),
                   ConsoleError ''Uh oh, trouble fetching players!'' err])"
    if "failure (settlement net w (get_request (API_URL @ ''/players''))) = Some err"
    using that by (cases "settlement net w (get_request (API_URL @ ''/players''))" rule: failure.cases)
      (simp_all add: fetchAllPlayers_eq list_request_def fetched_def fetch_log_def)
  have f: "fetchSinglePlayer net playerId w =
        (Inr JUndefined,
         logged w [Fetch (get_request (API_URL @ ''/players/'' @ s)),
                   ConsoleError (''Oh no, trouble fetching player #'' @ s @ ''!'') err])"
    if "failure (settlement net w (get_request (API_URL @ ''/players/'' @ s))) = Some err"
    using that by (cases "settlement net w (get_request (API_URL @ ''/players/'' @ s))" rule: failure.cases)
      (simp_all add: fetchSinglePlayer_cases [OF assms])
  have g: "addNewPlayer net playerObj w =
        (Inr JUndefined,
         logged w [Fetch (post_request playerObj),
                   ConsoleError ''Oops, something went wrong with adding that player!'' err])"
    if "failure (settlement net w (post_request playerObj)) = Some err"
    using that by (cases "settlement net w (post_request playerObj)" rule: failure.cases)
      (simp_all add: addNewPlayer_eq add_log_def)
  have h: "removePlayer net playerId w =
        (Inr JUndefined,
         logged w [Fetch (delete_request s),
                   ConsoleError (''Whoops, trouble removing player #'' @ s @
                                 '' from the roster!'') NetworkFailure])"
    if "settlement net w (delete_request s) = Rejected"
    using that by (simp add: removePlayer_cases [OF assms])
  from a b c d e f g h show ?thesis by blast
qed

theorem api_client_catches_failures_witness:
  "fetchAllPlayers (\<lambda>h. Rejected) world0 =
     (Inr JUndefined,
      world0\<lparr>effects := [Fetch (get_request (API_URL @ ''/players'')),
                ConsoleError ''Uh oh, trouble fetching players!'' NetworkFailure]\<rparr>)
 \<and> fetchSinglePlayer (\<lambda>h. Responded 200 BadJSON) (JNum ''7'') world0 =
     (Inr JUndefined,
      world0\<lparr>effects := [Fetch (get_request (API_URL @ ''/players/7'')),
                ConsoleError ''Oh no, trouble fetching player #7!'' DecodeFailure]\<rparr>)
 \<and> addNewPlayer (\<lambda>h. Responded 500 BadJSON) (JObj [(''name'', JStr ''Rex'')]) world0 =
     (Inr JUndefined,
      world0\<lparr>effects := [Fetch (post_request (JObj [(''name'', JStr ''Rex'')])),
                ConsoleError ''Oops, something went wrong with adding that player!'' DecodeFailure]\<rparr>)
 \<and> removePlayer (\<lambda>h. Rejected) (JNum ''7'') world0 =
     (Inr JUndefined,
      world0\<lparr>effects := [Fetch (delete_request ''7''),
                ConsoleError ''Whoops, trouble removing player #7 from the roster!'' NetworkFailure]\<rparr>)"
  using api_client_catches_failures [where playerId = "JNum ''7''" and s = "''7''"
      and net = "\<lambda>h. Rejected" and w = world0 and playerObj = JNull and err = NetworkFailure]
    api_client_catches_failures [where playerId = "JNum ''7''" and s = "''7''"
      and net = "\<lambda>h. Responded 200 BadJSON" and w = world0 and playerObj = JNull
      and err = DecodeFailure]
    api_client_catches_failures [where playerId = "JNum ''7''" and s = "''7''"
      and net = "\<lambda>h. Responded 500 BadJSON" and w = world0
      and playerObj = "JObj [(''name'', JStr ''Rex'')]" and err = DecodeFailure]
  by (simp add: settlement_def logged_def world0_def)

theorem api_client_catches_failures_counterexample:
  "fetchSinglePlayer (\<lambda>h. Rejected) no_string world0 = (Inl TypeError, world0)
 \<and> removePlayer (\<lambda>h. Rejected) no_string world0 = (Inl TypeError, world0)
 \<and> fetchSinglePlayer (\<lambda>h. Rejected) (JArr [JNum ''1'', no_string]) world0 = (Inl TypeError, world0)"
  by code_simp













text \<open>
  Claim C3, amended.  On every submission, and whatever tree the parser gives for each
  string, the submit listener does the following, in this order and nothing else:
  it prevents the default action; it issues the POST of \<^verbatim>\<open>addNewPlayer\<close>, whose body is
  the serialised record \<^verbatim>\<open>{name, breed, imageUrl}\<close> of the three current input values;
  once that request has settled (\<^verbatim>\<open>addNewPlayer\<close> logs its failure, if any) it issues
  the GET of \<^verbatim>\<open>fetchAllPlayers\<close> (which logs its failure, if any); and it calls
  \<^verbatim>\<open>renderAllPlayers\<close> with the list that call returned.  If \<^verbatim>\<open>renderAllPlayers\<close>
  returns normally, the listener returns normally and the three inputs are empty
  afterwards.  If \<^verbatim>\<open>renderAllPlayers\<close> throws, the listener ends with that exception and
  the three inputs keep their values.
\<close>

theorem submit_listener_steps:
  "effects (snd (submit_listener parse net w)) =
     effects w @ [PreventDefault, Fetch (post_request (form_record w))] @
       add_log (post_settlement net w) @
       [Fetch (get_request (API_URL @ ''/players''))] @ fetch_log (list_settlement net w)
 \<and> post_request (form_record w) =
     \<lparr>req_method = ''POST'', req_url = API_URL @ ''/players'',
      req_headers = [(''Content-Type'', ''application/json'')],
      req_body = Some (record_json (name_value w) (breed_value w) (imageUrl_value w))\<rparr>
 \<and> main_children (snd (submit_listener parse net w)) =
     main_children (snd (renderAllPlayers parse (fetched (list_settlement net w)) w))
 \<and> (fst (renderAllPlayers parse (fetched (list_settlement net w)) w) = Inr JUndefined \<longrightarrow>
      fst (submit_listener parse net w) = Inr JUndefined
    \<and> name_value (snd (submit_listener parse net w)) = []
    \<and> breed_value (snd (submit_listener parse net w)) = []
    \<and> imageUrl_value (snd (submit_listener parse net w)) = [])
 \<and> (fst (renderAllPlayers parse (fetched (list_settlement net w)) w) = Inl e \<longrightarrow>
      fst (submit_listener parse net w) = Inl e
    \<and> name_value (snd (submit_listener parse net w)) = name_value w
    \<and> breed_value (snd (submit_listener parse net w)) = breed_value w
    \<and> imageUrl_value (snd (submit_listener parse net w)) = imageUrl_value w)"
proof -
  define w3 where "w3 = logged w ([PreventDefault, Fetch (post_request (form_record w))] @
                  add_log (post_settlement net w) @
                  [Fetch list_request] @ fetch_log (list_settlement net w))"
  define r where "r = renderAllPlayers parse (fetched (list_settlement net w)) w3"
  have m: "main_children w3 = main_children w"
    by (simp add: w3_def)
  note fr = main_only_frame [OF main_only_renderAllPlayers m,
      of parse "fetched (list_settlement net w)", folded r_def]
  have c: "submit_listener parse net w =
     (case fst r of
        Inl e \<Rightarrow> (Inl e, snd r)
      | Inr v \<Rightarrow> (Inr JUndefined, (snd r)\<lparr>name_value := [], breed_value := [], imageUrl_value := []\<rparr>))"
    unfolding r_def w3_def by (rule submit_listener_cases)
  have p: "post_request (form_record w) =
     \<lparr>req_method = ''POST'', req_url = API_URL @ ''/players'',
      req_headers = [(''Content-Type'', ''application/json'')],
      req_body = Some (record_json (name_value w) (breed_value w) (imageUrl_value w))\<rparr>"
    unfolding post_request_def form_record_def stringify_record by simp
  have 1: "effects (snd (submit_listener parse net w)) =
     effects w @ [PreventDefault, Fetch (post_request (form_record w))] @
       add_log (post_settlement net w) @
       [Fetch (get_request (API_URL @ ''/players''))] @ fetch_log (list_settlement net w)"
    unfolding c using fr(3)
    by (cases "fst r") (simp_all add: w3_def list_request_def)
  have 2: "main_children (snd (submit_listener parse net w)) =
     main_children (snd (renderAllPlayers parse (fetched (list_settlement net w)) w))"
    unfolding c using fr(2)
    by (cases "fst r") simp_all
  have 3: "fst (submit_listener parse net w) = Inr JUndefined
    \<and> name_value (snd (submit_listener parse net w)) = []
    \<and> breed_value (snd (submit_listener parse net w)) = []
    \<and> imageUrl_value (snd (submit_listener parse net w)) = []"
    if "fst (renderAllPlayers parse (fetched (list_settlement net w)) w) = Inr JUndefined"
    unfolding c using fr(1) that by simp
  have 4: "fst (submit_listener parse net w) = Inl e
    \<and> name_value (snd (submit_listener parse net w)) = name_value w
    \<and> breed_value (snd (submit_listener parse net w)) = breed_value w
    \<and> imageUrl_value (snd (submit_listener parse net w)) = imageUrl_value w"
    if "fst (renderAllPlayers parse (fetched (list_settlement net w)) w) = Inl e"
    unfolding c using fr(1,4,5,6) that by (simp add: w3_def)
  from 1 p 2 3 4 show ?thesis by blast
qed

theorem submit_listener_steps_witness:
  "effects (snd (submit_listener html_parse (\<lambda>h. if length h = 1 then Rejected
                                                  else players_reply [rex] h)
                   (typed ''Rex'' ''Labrador'' ''http://x/rex.png'' world0))) =
     [PreventDefault,
      Fetch (post_request (JObj [(''name'', JStr ''Rex''), (''breed'', JStr ''Labrador''),
                                 (''imageUrl'', JStr ''http://x/rex.png'')])),
      ConsoleError ''Oops, something went wrong with adding that player!'' NetworkFailure,
      Fetch (get_request (API_URL @ ''/players''))]
 \<and> fst (submit_listener html_parse (\<lambda>h. if length h = 1 then Rejected else players_reply [rex] h)
       (typed ''Rex'' ''Labrador'' ''http://x/rex.png'' world0)) = Inr JUndefined
 \<and> main_children (snd (submit_listener html_parse
       (\<lambda>h. if length h = 1 then Rejected else players_reply [rex] h)
       (typed ''Rex'' ''Labrador'' ''http://x/rex.png'' world0))) = [player_card rex]
 \<and> name_value (snd (submit_listener html_parse
       (\<lambda>h. if length h = 1 then Rejected else players_reply [rex] h)
       (typed ''Rex'' ''Labrador'' ''http://x/rex.png'' world0))) = []
 \<and> breed_value (snd (submit_listener html_parse
       (\<lambda>h. if length h = 1 then Rejected else players_reply [rex] h)
       (typed ''Rex'' ''Labrador'' ''http://x/rex.png'' world0))) = []
 \<and> imageUrl_value (snd (submit_listener html_parse
       (\<lambda>h. if length h = 1 then Rejected else players_reply [rex] h)
       (typed ''Rex'' ''Labrador'' ''http://x/rex.png'' world0))) = []"
proof -
  define net :: network where "net = (\<lambda>h. if length h = 1 then Rejected else players_reply [rex] h)"
  define w where "w = typed ''Rex'' ''Labrador'' ''http://x/rex.png'' world0"
  have l: "list_settlement net w = players_reply [rex] []"
    by (simp add: list_settlement_def net_def w_def typed_def world0_def players_reply_def)
  have p: "post_settlement net w = Rejected"
    by (simp add: post_settlement_def net_def w_def typed_def world0_def)
  have f: "fetched (players_reply [rex] []) = JArr [rex]"
    by (simp add: fetched_def players_reply_def)
  have a: "fst (renderAllPlayers html_parse (JArr [rex]) w) = Inr JUndefined"
    unfolding w_def by code_simp
  have a2: "main_children (snd (renderAllPlayers html_parse (JArr [rex]) w)) = [player_card rex]"
    unfolding w_def by code_simp
  have b: "add_log Rejected =
      [ConsoleError ''Oops, something went wrong with adding that player!'' NetworkFailure]"
    by (simp add: add_log_def)
  have c: "fetch_log (players_reply [rex] []) = []"
    by (simp add: fetch_log_def players_reply_def)
  have d: "form_record w =
      JObj [(''name'', JStr ''Rex''), (''breed'', JStr ''Labrador''),
            (''imageUrl'', JStr ''http://x/rex.png'')]"
    by (simp add: w_def typed_def form_record_def)
  have e: "effects w = []"
    by (simp add: w_def typed_def world0_def)
  show ?thesis
    using submit_listener_steps [where parse = html_parse and net = net and w = w
        and e = TypeError]
    unfolding l p f a a2 b c d e
    unfolding net_def w_def
    by simp
qed

theorem submit_listener_steps_counterexample:
  "fst (submit_listener html_parse (players_reply [JNull])
          (typed ''Rex'' ''Labrador'' ''http://x/rex.png'' world0)) = Inl TypeError
 \<and> name_value (snd (submit_listener html_parse (players_reply [JNull])
                        (typed ''Rex'' ''Labrador'' ''http://x/rex.png'' world0))) = ''Rex''
 \<and> fst (submit_listener html_parse (players_reply [quote_named])
          (typed ''Rex'' ''Labrador'' ''http://x/rex.png'' world0)) = Inl TypeError
 \<and> name_value (snd (submit_listener html_parse (players_reply [quote_named])
                        (typed ''Rex'' ''Labrador'' ''http://x/rex.png'' world0))) = ''Rex''"
  by code_simp

text \<open>
  Claim C9.  Each call of \<^verbatim>\<open>renderNewPlayerForm\<close> adds one submit listener to the form
  and removes none: after \<open>k\<close> calls there are \<open>k\<close> more.  One submission then issues
  as many POST requests of \<^verbatim>\<open>addNewPlayer\<close>, each with the record of the typed values,
  and as many GET requests of \<^verbatim>\<open>fetchAllPlayers\<close>, as there are listeners: \<open>k\<close> of each
  on a form that had none.  With one listener the submission is one run of the listener.
\<close>

theorem repeated_form_rendering:
  "submit_listeners (render_form_times html_parse k w) = submit_listeners w + k
 \<and> requests_of (effects (dispatch_submit html_parse net
       (typed n b u (render_form_times html_parse k w)))) =
     requests_of (effects w) @
       replicate (submit_listeners w + k)
         (post_request (JObj [(''name'', JStr n), (''breed'', JStr b), (''imageUrl'', JStr u)])) @
       replicate (submit_listeners w + k) (get_request (API_URL @ ''/players''))
 \<and> dispatch_submit html_parse net (render_form_times html_parse 1 (w\<lparr>form_listeners := []\<rparr>)) =
     snd (submit_listener html_parse net (render_form_times html_parse 1 (w\<lparr>form_listeners := []\<rparr>)))"
proof -
  have a: "submit_listeners (render_form_times html_parse k w) = submit_listeners w + k" for w
    by (simp add: submit_listeners_def render_form_times_fields)
  have t: "submit_listeners (typed n b u w) = submit_listeners w"
    "effects (typed n b u w) = effects w"
    "form_record (typed n b u w) =
       JObj [(''name'', JStr n), (''breed'', JStr b), (''imageUrl'', JStr u)]" for w
    by (simp_all add: typed_def submit_listeners_def form_record_def)
  have c: "dispatch_submit html_parse net (render_form_times html_parse 1 (w\<lparr>form_listeners := []\<rparr>)) =
     snd (submit_listener html_parse net (render_form_times html_parse 1 (w\<lparr>form_listeners := []\<rparr>)))"
    by (simp add: dispatch_submit_def renderNewPlayerForm_eq submit_listener_split js_bind_def
        split: prod.splits sum.splits)
  show ?thesis
    using a c
    by (simp add: dispatch_submit_requests t render_form_times_fields list_request_def)
qed

end
